theory Spec2Isabelle
  imports Main "HOL-Library.Word"
begin

section \<open>The message processor of the birdhouse mesh node\<close>

text \<open>
  A shallow embedding of \<^verbatim>\<open>fw/station/MessageProcessor.cpp\<close>. The translation unit
  includes \<^verbatim>\<open>MessageProcessor.h\<close>, \<^verbatim>\<open>packets.h\<close>, \<^verbatim>\<open>RoutingTable.h\<close>,
  \<^verbatim>\<open>CircularBuffer.h\<close> and \<^verbatim>\<open>Clock.h\<close>, none of which is among the sources at hand.
  What those headers declare is either taken from the design document (and marked so) or kept
  as a parameter of the model.
\<close>

subsection \<open>Packets\<close>

type_synonym nodeaddr_t = "16 word"
type_synonym byte = "8 word"

text \<open>
  Modelled from the spec: the payload structs of \<^verbatim>\<open>packets.h\<close> (section 3, payload
  variants). Only the fields are given there; the byte layout is a parameter (the unpack and
  pack functions below).
\<close>

record ResetReqPayload =
  passcode :: "32 word"

record SetRouteReqPayload =
  passcode :: "32 word"
  targetAddr :: nodeaddr_t
  nextHopAddr :: nodeaddr_t

record GetRouteReqPayload =
  targetAddr :: nodeaddr_t

record GetRouteRespPayload =
  targetAddr :: nodeaddr_t
  nextHopAddr :: nodeaddr_t
  txPacketCount :: "16 word"
  rxPacketCount :: "16 word"

record SadRespPayload =
  version :: "16 word"
  batteryMv :: "16 word"
  panelMv :: "16 word"
  uptimeSeconds :: "32 word"
  time :: "32 word"
  bootCount :: "16 word"
  sleepCount :: "16 word"
  lastHopRssi :: "16 word"
  temp :: "16 word"
  humidity :: "16 word"
  deviceClass :: "16 word"
  deviceRevision :: "16 word"
  rxPacketCount :: "16 word"
  badRxPacketCount :: "16 word"
  badRouteCount :: "16 word"

text \<open>
  Modelled from the spec: \<^verbatim>\<open>struct Header\<close> of \<^verbatim>\<open>packets.h\<close> (section 3). The
  accessors \<^verbatim>\<open>getPacketVersion\<close>, \<^verbatim>\<open>getDestAddr\<close>, \<^verbatim>\<open>getFinalDestAddr\<close>,
  \<^verbatim>\<open>getOriginalSourceAddr\<close>, \<^verbatim>\<open>getSourceCall\<close>, \<^verbatim>\<open>getOriginalSourceCall\<close> read the
  field of that name and \<^verbatim>\<open>setId\<close>, \<^verbatim>\<open>setDestAddr\<close>, \<^verbatim>\<open>setSourceAddr\<close> write it.
  The field \<^verbatim>\<open>id\<close> is called \<open>id_h\<close> here.
\<close>

record Header =
  version :: byte
  type :: byte
  id_h :: "16 word"
  sourceAddr :: nodeaddr_t
  destAddr :: nodeaddr_t
  originalSourceAddr :: nodeaddr_t
  finalDestAddr :: nodeaddr_t
  sourceCall :: "byte list"
  originalSourceCall :: "byte list"

record Packet =
  header :: Header
  payload :: "byte list"

text \<open>
  The message types that \<^verbatim>\<open>_process\<close> compares \<^verbatim>\<open>header.getType()\<close> with. The
  enumeration is declared in \<^verbatim>\<open>packets.h\<close>; its members are distinct, every other value
  of the type byte is \<open>TYPE_OTHER\<close>.
\<close>

datatype MessageType =
    TYPE_PING_REQ | TYPE_PING_RESP | TYPE_GETSED_REQ | TYPE_GETSED_RESP
  | TYPE_RESET | TYPE_RESET_COUNTERS | TYPE_TEXT | TYPE_SETROUTE
  | TYPE_GETROUTE_REQ | TYPE_GETROUTE_RESP | TYPE_OTHER byte

definition BROADCAST_ADDR :: nodeaddr_t where
  \<comment> \<open>Modelled from the spec: section 3, \<^verbatim>\<open>0xFFFF\<close> = broadcast.\<close>
  "BROADCAST_ADDR = 0xFFFF"

subsection \<open>The collaborators\<close>

text \<open>\<^verbatim>\<open>Configuration\<close>: the values its const getters return.\<close>

record Configuration =
  getAddr :: nodeaddr_t
  getCall :: "byte list"
  getLogLevel :: nat
  getCommandMode :: nat
  getBootCount :: "16 word"
  getSleepCount :: "16 word"
  checkPasscode :: "32 word \<Rightarrow> bool"

text \<open>\<^verbatim>\<open>Instrumentation\<close>: the values its const getters return.\<close>

record Instrumentation =
  getSoftwareVersion :: "16 word"
  getBatteryVoltage :: "16 word"
  getPanelVoltage :: "16 word"
  getTemperature :: "16 word"
  getHumidity :: "16 word"
  getDeviceClass :: "16 word"
  getDeviceRevision :: "16 word"

text \<open>
  What \<^verbatim>\<open>packets.h\<close> declares and \<^verbatim>\<open>_process\<close> uses, as parameters: the protocol
  version, the sizes of the structs, the decoding of the type byte, the layout of the payload
  structs, and the header constructors.
\<close>

record PacketDecls =
  PACKET_VERSION :: byte
  sizeof_Header :: nat
  sizeof_ResetReqPayload :: nat
  sizeof_SadRespPayload :: nat
  sizeof_SetRouteReqPayload :: nat
  sizeof_GetRouteReqPayload :: nat
  sizeof_GetRouteRespPayload :: nat
  getType :: "Header \<Rightarrow> MessageType"
  isAck :: "Header \<Rightarrow> bool"
  isAckRequired :: "Header \<Rightarrow> bool"
  isResponseRequired :: "Header \<Rightarrow> bool"
  ackTemplate :: "Header \<Rightarrow> Configuration \<Rightarrow> Header"
  setupResponseFor ::
    "Header \<Rightarrow> Configuration \<Rightarrow> MessageType \<Rightarrow> 16 word \<Rightarrow> nodeaddr_t \<Rightarrow> Header"
  unpack_ResetReqPayload :: "byte list \<Rightarrow> ResetReqPayload"
  unpack_SetRouteReqPayload :: "byte list \<Rightarrow> SetRouteReqPayload"
  unpack_GetRouteReqPayload :: "byte list \<Rightarrow> GetRouteReqPayload"
  unpack_GetRouteRespPayload :: "byte list \<Rightarrow> GetRouteRespPayload"
  unpack_SadRespPayload :: "byte list \<Rightarrow> SadRespPayload"
  pack_SadRespPayload :: "SadRespPayload \<Rightarrow> byte list"
  pack_GetRouteRespPayload :: "GetRouteRespPayload \<Rightarrow> byte list"

text \<open>
  Modelled from the spec: \<^verbatim>\<open>Header::setupAckFor\<close> of \<^verbatim>\<open>packets.h\<close>. Section 3 fixes
  three fields of an ACK: the id is copied from the request, \<^verbatim>\<open>destAddr\<close> is the request's
  \<^verbatim>\<open>sourceAddr\<close>, and \<^verbatim>\<open>sourceAddr\<close> is the node itself. The other fields (version, the
  type byte with its ACK bit, the end-to-end addresses, the call signs) come from the
  parameter \<open>ackTemplate\<close>.
\<close>

definition setupAckFor :: "PacketDecls \<Rightarrow> Header \<Rightarrow> Configuration \<Rightarrow> Header" where
  "setupAckFor D rx config =
     (ackTemplate D rx config)
       \<lparr> id_h := id_h rx, sourceAddr := getAddr config, destAddr := sourceAddr rx \<rparr>"

text \<open>
  \<^verbatim>\<open>struct PacketReport\<close>, one slot of the dedup ring (\<^verbatim>\<open>MessageProcessor.h\<close>); the three
  fields are the ones \<^verbatim>\<open>_process\<close> writes.
\<close>

record PacketReport =
  node :: nodeaddr_t
  id_r :: "16 word"
  stamp :: "32 word"

text \<open>
  The collaborators whose state \<^verbatim>\<open>_process\<close> changes only through calls: the outbound
  packet manager (state \<open>'opm\<close>) and the receive buffer (state \<open>'rx\<close>). Their operations are
  parameters. \<open>inDedupWindow stamp now\<close> is the age test of \<^verbatim>\<open>PacketReport::isDuplicate\<close>
  and \<open>NO_ROUTE\<close> the sentinel of \<^verbatim>\<open>RoutingTable\<close>.
\<close>

record ('opm, 'rx) Ports =
  config :: Configuration
  instrumentation :: Instrumentation
  decls :: PacketDecls
  NO_ROUTE :: nodeaddr_t
  inDedupWindow :: "32 word \<Rightarrow> 32 word \<Rightarrow> bool"
  scheduleTransmitIfPossible :: "32 word \<Rightarrow> 'opm \<Rightarrow> Packet \<Rightarrow> nat \<Rightarrow> bool \<times> 'opm"
  processAck :: "32 word \<Rightarrow> 'opm \<Rightarrow> Packet \<Rightarrow> 'opm"
  push :: "'rx \<Rightarrow> 16 word \<Rightarrow> Packet \<Rightarrow> nat \<Rightarrow> bool \<times> 'rx"

subsection \<open>The state of the node\<close>

text \<open>
  The members of \<^verbatim>\<open>MessageProcessor\<close> (declared in \<^verbatim>\<open>MessageProcessor.h\<close>) together with
  the state of the collaborators it holds references to. The counters read through
  \<^verbatim>\<open>getBadRouteCounter\<close> and \<^verbatim>\<open>getBadRxPacketCounter\<close> are \<^verbatim>\<open>uint16_t\<close>.

  Modelled from the spec: the width of \<^verbatim>\<open>_idCounter\<close> (section 4.4: a 16-bit counter) and of
  \<^verbatim>\<open>_rxPacketCounter\<close>, and the routing table as a map from addresses to next hops
  (section 4.2). The dedup ring \<^verbatim>\<open>_packetReport\<close> is a list; its length is
  \<^verbatim>\<open>_packetReportSlots\<close>.
\<close>

record ('opm, 'rx) MessageProcessor =
  idCounter :: "16 word"
  startTime :: "32 word"
  rxPacketCounter :: "16 word"
  badRxPacketCounter :: "16 word"
  badRouteCounter :: "16 word"
  lastRxTime :: "32 word"
  packetReport :: "PacketReport list"
  packetReportPtr :: nat
  opm :: 'opm
  rxBuffer :: 'rx
  routingTable :: "nodeaddr_t \<Rightarrow> nodeaddr_t"

text \<open>
  Modelled from the spec: \<^verbatim>\<open>RoutingTable::nextHop\<close> and \<^verbatim>\<open>setRoute\<close> (section 4.2; the
  same code is in the disabled \<^verbatim>\<open>TestRoutingTable\<close> of \<^verbatim>\<open>unit-test-2.cpp\<close>).
\<close>

definition nextHop :: "nodeaddr_t \<Rightarrow> (nodeaddr_t \<Rightarrow> nodeaddr_t) \<Rightarrow> nodeaddr_t \<Rightarrow> nodeaddr_t" where
  "nextHop no_route table finalDest =
     (if finalDest = 0 then 0
      else if finalDest \<ge> 0xFFF0 then finalDest
      else if finalDest \<ge> 64 then no_route
      else table finalDest)"

definition setRoute ::
    "(nodeaddr_t \<Rightarrow> nodeaddr_t) \<Rightarrow> nodeaddr_t \<Rightarrow> nodeaddr_t \<Rightarrow> (nodeaddr_t \<Rightarrow> nodeaddr_t)" where
  "setRoute table target nh = table(target := nh)"

text \<open>
  Modelled from the spec: \<^verbatim>\<open>PacketReport::isDuplicate\<close> (section 4.4, step 7): a match on
  \<^verbatim>\<open>(originalSourceAddr, id)\<close> within the age window.
\<close>

definition isDuplicate ::
    "('opm, 'rx) Ports \<Rightarrow> PacketReport \<Rightarrow> Packet \<Rightarrow> 32 word \<Rightarrow> bool" where
  "isDuplicate P r packet now =
     (node r = originalSourceAddr (header packet) \<and> id_r r = id_h (header packet)
      \<and> inDedupWindow P (stamp r) now)"

subsection \<open>Effects\<close>

text \<open>
  What a call does to the outside: the calls of the logger (\<^verbatim>\<open>print\<close> of a string, of a
  number, of a call sign, of a C string held in a buffer; \<^verbatim>\<open>println\<close> is a print followed
  by \<open>LogLn\<close>), the calls of \<^verbatim>\<open>transmitIfPossible\<close> with their result, and
  \<^verbatim>\<open>instrumentation.restart()\<close>.
\<close>

datatype event =
    Log string
  | LogNum int
  | LogCall "byte list"
  | LogCStr "byte list"
  | LogLn
  | Transmit Packet nat bool
  | Restart

datatype fault = BufferOverflow | BufferOverread

definition println :: "string \<Rightarrow> event list" where
  "println m = [Log m, LogLn]"

definition msg_bad_message :: string where
  "msg_bad_message = ''ERR: Bad message''"

definition msg_no_route :: string where
  "msg_no_route = ''ERR: No route''"

definition msg_no_auth :: string where
  "msg_no_auth = ''ERR: Unauthorized''"

subsection \<open>The operations\<close>

text \<open>\<^verbatim>\<open>MessageProcessor::getUniqueId\<close>: \<^verbatim>\<open>return _idCounter++\<close>.\<close>

definition getUniqueId ::
    "('opm, 'rx) MessageProcessor \<Rightarrow> 16 word \<times> ('opm, 'rx) MessageProcessor" where
  "getUniqueId s = (idCounter s, s\<lparr>idCounter := idCounter s + 1\<rparr>)"

text \<open>\<^verbatim>\<open>MessageProcessor::resetCounters\<close>.\<close>

definition resetCounters :: "('opm, 'rx) MessageProcessor \<Rightarrow> ('opm, 'rx) MessageProcessor" where
  "resetCounters s =
     s\<lparr>rxPacketCounter := 0, badRxPacketCounter := 0, badRouteCounter := 0\<rparr>"

text \<open>
  The constructor: the id counter starts at 1, the counters at 0, both times at the clock's
  reading. The ring, the OPM, the buffers and the routing table are given.
\<close>

definition init ::
    "32 word \<Rightarrow> PacketReport list \<Rightarrow> nat \<Rightarrow> 'opm \<Rightarrow> 'rx \<Rightarrow> (nodeaddr_t \<Rightarrow> nodeaddr_t)
      \<Rightarrow> ('opm, 'rx) MessageProcessor" where
  "init now ring ptr o0 rx0 table =
     \<lparr> idCounter = 1, startTime = now, rxPacketCounter = 0, badRxPacketCounter = 0,
       badRouteCounter = 0, lastRxTime = now, packetReport = ring, packetReportPtr = ptr,
       opm = o0, rxBuffer = rx0, routingTable = table \<rparr>"

text \<open>
  \<^verbatim>\<open>MessageProcessor::transmitIfPossible\<close>: a packet for the node itself goes on the receive
  buffer with an RSSI of 0, any other packet to the outbound packet manager.
\<close>

definition transmitIfPossible ::
    "('opm, 'rx) Ports \<Rightarrow> 32 word \<Rightarrow> ('opm, 'rx) MessageProcessor \<Rightarrow> Packet \<Rightarrow> nat
      \<Rightarrow> bool \<times> ('opm, 'rx) MessageProcessor" where
  "transmitIfPossible P now s packet packetLen =
     (if destAddr (header packet) = getAddr (config P) then
        (let (good, rx') = push P (rxBuffer s) 0 packet packetLen
         in (good, s\<lparr>rxBuffer := rx'\<rparr>))
      else
        (let (good, opm') = scheduleTransmitIfPossible P now (opm s) packet packetLen
         in (good, s\<lparr>opm := opm'\<rparr>)))"

text \<open>The static function \<^verbatim>\<open>log_packet\<close>.\<close>

definition log_packet :: "Packet \<Rightarrow> 16 word \<Rightarrow> event list" where
  "log_packet packet rssi =
     [Log ''INF: Got type: '', LogNum (uint (type (header packet))),
      Log '', id: '', LogNum (uint (id_h (header packet))),
      Log '', from: '', LogNum (uint (sourceAddr (header packet))),
      Log '', fromCall: '', LogCall (sourceCall (header packet)),
      Log '', to: '', LogNum (uint (destAddr (header packet))),
      Log '', originalSource: '', LogNum (uint (originalSourceAddr (header packet))),
      Log '', originalSourceCall: '', LogCall (originalSourceCall (header packet)),
      Log '', finalDest: '', LogNum (uint (finalDestAddr (header packet))),
      Log '', RSSI: '', LogNum (sint rssi),
      LogLn]"

text \<open>
  Accesses to arrays are checked against their size: \<^verbatim>\<open>memcpy(dst, src, n)\<close> reads
  \<open>src[0..n)\<close> and writes \<open>dst[0..n)\<close>, \<^verbatim>\<open>buf[i] = v\<close> writes \<open>buf[i]\<close>. A write outside
  the array is the fault \<open>BufferOverflow\<close>, a read outside it the fault \<open>BufferOverread\<close>.
  The payload of a packet is the list of the bytes its array holds.
\<close>

definition memcpy_into :: "byte list \<Rightarrow> byte list \<Rightarrow> nat \<Rightarrow> fault + byte list" where
  "memcpy_into dst src n =
     (if length dst < n then Inl BufferOverflow
      else if length src < n then Inl BufferOverread
      else Inr (take n src @ drop n dst))"

definition store_at :: "byte list \<Rightarrow> nat \<Rightarrow> byte \<Rightarrow> fault + byte list" where
  "store_at buf i v = (if i < length buf then Inr (buf[i := v]) else Inl BufferOverflow)"

text \<open>\<^verbatim>\<open>char scratch[128]\<close> of the TEXT handler, before anything is written to it.\<close>

definition scratch0 :: "byte list" where
  "scratch0 = replicate 128 0"

text \<open>
  The pattern \<^verbatim>\<open>bool good = transmitIfPossible(p, len); if (!good) logger.println(msg);\<close>.
\<close>

definition transmitOrLog ::
    "('opm, 'rx) Ports \<Rightarrow> 32 word \<Rightarrow> ('opm, 'rx) MessageProcessor \<Rightarrow> Packet \<Rightarrow> nat \<Rightarrow> string
      \<Rightarrow> event list \<times> ('opm, 'rx) MessageProcessor" where
  "transmitOrLog P now s packet packetLen msg =
     (let (good, s') = transmitIfPossible P now s packet packetLen
      in (Transmit packet packetLen good # (if \<not> good then println msg else []), s'))"

text \<open>Lines 199 to 229 of \<^verbatim>\<open>_process\<close>: the packet is for another node.\<close>

definition forward ::
    "('opm, 'rx) Ports \<Rightarrow> 32 word \<Rightarrow> ('opm, 'rx) MessageProcessor \<Rightarrow> Packet \<Rightarrow> nat
      \<Rightarrow> event list \<times> ('opm, 'rx) MessageProcessor" where
  "forward P now s packet packetLen =
     (let nh = nextHop (NO_ROUTE P) (routingTable s) (finalDestAddr (header packet))
      in if nh \<noteq> NO_ROUTE P then
           (let (uid, s1) = getUniqueId s;
                outPacket = packet\<lparr>header := (header packet)
                  \<lparr>id_h := uid, destAddr := nh, sourceAddr := getAddr (config P)\<rparr>\<rparr>;
                (good, s2) = transmitIfPossible P now s1 outPacket packetLen
            in (Transmit outPacket packetLen good #
                  (if \<not> good then println ''ERR: Full, no forward''
                   else if getLogLevel (config P) > 0
                     then [Log ''INF: Forward to '', LogNum (uint nh), LogLn]
                   else []),
                s2))
         else (println msg_no_route, s\<lparr>badRouteCounter := badRouteCounter s + 1\<rparr>))"

text \<open>The payload of the GETSED response (lines 271 to 289).\<close>

definition sadResp ::
    "('opm, 'rx) Ports \<Rightarrow> 32 word \<Rightarrow> ('opm, 'rx) MessageProcessor \<Rightarrow> 16 word
      \<Rightarrow> SadRespPayload" where
  "sadResp P now s rssi =
     \<lparr> SadRespPayload.version = getSoftwareVersion (instrumentation P),
       batteryMv = getBatteryVoltage (instrumentation P),
       panelMv = getPanelVoltage (instrumentation P),
       uptimeSeconds = (now - startTime s) div 1000,
       time = now,
       bootCount = getBootCount (config P),
       sleepCount = getSleepCount (config P),
       lastHopRssi = rssi,
       temp = getTemperature (instrumentation P),
       humidity = getHumidity (instrumentation P),
       deviceClass = getDeviceClass (instrumentation P),
       deviceRevision = getDeviceRevision (instrumentation P),
       rxPacketCount = rxPacketCounter s,
       badRxPacketCount = badRxPacketCounter s,
       badRouteCount = badRouteCounter s \<rparr>"

text \<open>The display of a GETSED response (lines 334 to 356).\<close>

definition log_sadResp :: "Packet \<Rightarrow> SadRespPayload \<Rightarrow> event list" where
  "log_sadResp packet r =
     [Log ''GETSED_RESP: { \"node\": '', LogNum (uint (originalSourceAddr (header packet))),
      Log '', \"version\": '', LogNum (uint (SadRespPayload.version r)),
      Log '', \"batteryMv\": '', LogNum (uint (batteryMv r)),
      Log '', \"panelMv\": '', LogNum (uint (panelMv r)),
      Log '', \"uptimeSeconds\": '', LogNum (uint (uptimeSeconds r)),
      Log '', \"bootCount\": '', LogNum (uint (bootCount r)),
      Log '', \"sleepCount\": '', LogNum (uint (sleepCount r)),
      Log '', \"rxPacketCount\": '', LogNum (uint (SadRespPayload.rxPacketCount r)),
      Log '', \"badRxPacketCount\": '', LogNum (uint (badRxPacketCount r)),
      Log '', \"badRouteCount\": '', LogNum (uint (badRouteCount r)),
      Log '', \"lastHopRssi\": '', LogNum (sint (lastHopRssi r)),
      Log ''}'', LogLn]"

text \<open>The TEXT handler (lines 376 to 400).\<close>

definition handle_TEXT ::
    "('opm, 'rx) Ports \<Rightarrow> Packet \<Rightarrow> nat \<Rightarrow> fault + event list" where
  "handle_TEXT P packet packetLen =
     (let textLen = packetLen - sizeof_Header (decls P)
      in case memcpy_into scratch0 (payload packet) textLen of
           Inl f \<Rightarrow> Inl f
         | Inr scratch1 \<Rightarrow>
            (case store_at scratch1 textLen 0 of
               Inl f \<Rightarrow> Inl f
             | Inr scratch \<Rightarrow>
                 Inr (if getCommandMode (config P) = 1 then
                        [Log ''TEXT: { \"call\": \"'',
                         LogCall (originalSourceCall (header packet)),
                         Log ''\", \"node\": '',
                         LogNum (uint (originalSourceAddr (header packet))),
                         Log ''\", \"text\": \"'',
                         LogCStr (takeWhile (\<lambda>b. b \<noteq> 0) scratch),
                         Log ''\" } '', LogLn]
                      else
                        [Log ''MSG: ['',
                         LogCall (originalSourceCall (header packet)),
                         Log '','',
                         LogNum (uint (originalSourceAddr (header packet))),
                         Log ''] '',
                         LogCStr (takeWhile (\<lambda>b. b \<noteq> 0) scratch), LogLn])))"

text \<open>
  Lines 251 to 488 of \<^verbatim>\<open>_process\<close>: the chain of tests on the type of a packet for this
  node, in the order of the source. \<open>firstHop\<close> is the hop back towards the origin.
\<close>

definition dispatch ::
    "('opm, 'rx) Ports \<Rightarrow> 32 word \<Rightarrow> ('opm, 'rx) MessageProcessor \<Rightarrow> 16 word \<Rightarrow> Packet \<Rightarrow> nat
      \<Rightarrow> nodeaddr_t \<Rightarrow> fault + (event list \<times> ('opm, 'rx) MessageProcessor)" where
  "dispatch P now s rssi packet packetLen firstHop =
     (let D = decls P; H = sizeof_Header D; t = getType D (header packet) in
      if t = TYPE_PING_REQ then
        (let (uid, s1) = getUniqueId s;
             resp = \<lparr>header = setupResponseFor D (header packet) (config P)
                        TYPE_PING_RESP uid firstHop, payload = []\<rparr>
         in Inr (transmitOrLog P now s1 resp H ''ERR: Full, no resp''))
      else if t = TYPE_GETSED_REQ then
        (let (uid, s1) = getUniqueId s;
             resp = \<lparr>header = setupResponseFor D (header packet) (config P)
                        TYPE_GETSED_RESP uid firstHop,
                     payload = pack_SadRespPayload D (sadResp P now s1 rssi)\<rparr>
         in Inr (transmitOrLog P now s1 resp (H + sizeof_SadRespPayload D)
                   ''ERR: Full, no resp''))
      else if t = TYPE_RESET \<or> t = TYPE_RESET_COUNTERS then
        (if packetLen < H + sizeof_ResetReqPayload D then Inr (println msg_bad_message, s)
         else if \<not> checkPasscode (config P)
                    (ResetReqPayload.passcode (unpack_ResetReqPayload D (payload packet)))
           then Inr (println msg_no_auth, s)
         else if t = TYPE_RESET then Inr ([Restart], s)
         else if t = TYPE_RESET_COUNTERS
           then Inr (println ''INF: Reset counters'', resetCounters s)
         else Inr ([], s))
      else if t = TYPE_GETSED_RESP then
        (if packetLen < H + sizeof_SadRespPayload D then Inr (println msg_bad_message, s)
         else Inr (log_sadResp packet (unpack_SadRespPayload D (payload packet)), s))
      else if t = TYPE_PING_RESP then
        Inr ([Log ''PING_RESP: { \"node\": '',
              LogNum (uint (originalSourceAddr (header packet))),
              Log '', \"call\": \"'', LogCall (originalSourceCall (header packet)),
              Log ''\" }'', LogLn], s)
      else if t = TYPE_RESET then
        Inr (println ''INF: Resetting'' @ [Restart], s)
      else if t = TYPE_TEXT then
        (case handle_TEXT P packet packetLen of
           Inl f \<Rightarrow> Inl f
         | Inr evs \<Rightarrow> Inr (evs, s))
      else if t = TYPE_SETROUTE then
        (if packetLen < H + sizeof_SetRouteReqPayload D then Inr (println msg_bad_message, s)
         else
           (let pl = unpack_SetRouteReqPayload D (payload packet) in
            if \<not> checkPasscode (config P) (SetRouteReqPayload.passcode pl)
              then Inr (println msg_no_auth, s)
            else Inr ([Log ''INF: Set route '',
                       LogNum (uint (SetRouteReqPayload.targetAddr pl)),
                       Log ''->'', LogNum (uint (SetRouteReqPayload.nextHopAddr pl)), LogLn],
                      s\<lparr>routingTable := setRoute (routingTable s)
                          (SetRouteReqPayload.targetAddr pl)
                          (SetRouteReqPayload.nextHopAddr pl)\<rparr>)))
      else if t = TYPE_GETROUTE_REQ then
        (if packetLen < H + sizeof_GetRouteReqPayload D then Inr (println msg_bad_message, s)
         else
           (let pl = unpack_GetRouteReqPayload D (payload packet);
                nh = nextHop (NO_ROUTE P) (routingTable s) (GetRouteReqPayload.targetAddr pl);
                (uid, s1) = getUniqueId s;
                respPayload = \<lparr> GetRouteRespPayload.targetAddr =
                                  GetRouteReqPayload.targetAddr pl,
                                nextHopAddr = nh, txPacketCount = 0, rxPacketCount = 0 \<rparr>;
                resp = \<lparr>header = setupResponseFor D (header packet) (config P)
                           TYPE_GETROUTE_RESP uid firstHop,
                        payload = pack_GetRouteRespPayload D respPayload\<rparr>
            in Inr (transmitOrLog P now s1 resp (H + sizeof_GetRouteRespPayload D)
                      ''ERR: Full, no resp'')))
      else if t = TYPE_GETROUTE_RESP then
        (if packetLen < H + sizeof_GetRouteRespPayload D then Inr (println msg_bad_message, s)
         else
           (let pl = unpack_GetRouteRespPayload D (payload packet) in
            Inr ([Log ''GETROUTE_RESP: { '', Log ''\"origSourceAddr\":'',
                  LogNum (uint (originalSourceAddr (header packet))),
                  Log '', \"targetAddr\":'', LogNum (uint (GetRouteRespPayload.targetAddr pl)),
                  Log '', \"nextHopAddr\":'', LogNum (uint (GetRouteRespPayload.nextHopAddr pl)),
                  Log '' }'', LogLn], s)))
      else Inr (println ''ERR: Unknown message'', s))"

text \<open>Lines 233 to 489: the packet is for this node.\<close>

definition local_branch ::
    "('opm, 'rx) Ports \<Rightarrow> 32 word \<Rightarrow> ('opm, 'rx) MessageProcessor \<Rightarrow> 16 word \<Rightarrow> Packet \<Rightarrow> nat
      \<Rightarrow> fault + (event list \<times> ('opm, 'rx) MessageProcessor)" where
  "local_branch P now s rssi packet packetLen =
     (let firstHop = nextHop (NO_ROUTE P) (routingTable s) (originalSourceAddr (header packet))
      in if isResponseRequired (decls P) (header packet) \<and> firstHop = NO_ROUTE P then
           Inr ([Log ''ERR: No route to '',
                 LogNum (uint (originalSourceAddr (header packet))), LogLn],
                s\<lparr>badRouteCounter := badRouteCounter s + 1\<rparr>)
         else dispatch P now s rssi packet packetLen firstHop)"

text \<open>Lines 171 to 178: the ACK for a packet that asks for one.\<close>

definition sendAck ::
    "('opm, 'rx) Ports \<Rightarrow> 32 word \<Rightarrow> ('opm, 'rx) MessageProcessor \<Rightarrow> Packet
      \<Rightarrow> event list \<times> ('opm, 'rx) MessageProcessor" where
  "sendAck P now s packet =
     (if isAckRequired (decls P) (header packet) then
        transmitOrLog P now s
          \<lparr>header = setupAckFor (decls P) (header packet) (config P), payload = []\<rparr>
          (sizeof_Header (decls P)) ''ERR: Full, no ACK''
      else ([], s))"

text \<open>Lines 193 to 196: the packet is recorded in the dedup ring.\<close>

definition record_packet ::
    "32 word \<Rightarrow> ('opm, 'rx) MessageProcessor \<Rightarrow> Packet \<Rightarrow> ('opm, 'rx) MessageProcessor" where
  "record_packet now s packet =
     s\<lparr>packetReport := (packetReport s)[packetReportPtr s :=
          \<lparr>node = originalSourceAddr (header packet), id_r = id_h (header packet),
           stamp = now\<rparr>],
       packetReportPtr := (packetReportPtr s + 1) mod length (packetReport s)\<rparr>"

definition prefixed ::
    "event list \<Rightarrow> fault + (event list \<times> 's) \<Rightarrow> fault + (event list \<times> 's)" where
  "prefixed evs r = (case r of Inl f \<Rightarrow> Inl f | Inr (evs', s) \<Rightarrow> Inr (evs @ evs', s))"

text \<open>
  \<^verbatim>\<open>MessageProcessor::_process\<close>. \<open>now\<close> is the reading of the clock during the call. The
  result is the fault, or the effects in the order they happen and the state after the call.
\<close>

definition process ::
    "('opm, 'rx) Ports \<Rightarrow> 32 word \<Rightarrow> ('opm, 'rx) MessageProcessor \<Rightarrow> 16 word \<Rightarrow> Packet \<Rightarrow> nat
      \<Rightarrow> fault + (event list \<times> ('opm, 'rx) MessageProcessor)" where
  "process P now s rssi packet packetLen =
     (if packetLen < sizeof_Header (decls P) then
        Inr (println msg_bad_message, s\<lparr>badRxPacketCounter := badRxPacketCounter s + 1\<rparr>)
      else if Header.version (header packet) \<noteq> PACKET_VERSION (decls P) then
        Inr (println msg_bad_message, s\<lparr>badRxPacketCounter := badRxPacketCounter s + 1\<rparr>)
      else if destAddr (header packet) \<noteq> BROADCAST_ADDR
              \<and> destAddr (header packet) \<noteq> getAddr (config P) then
        Inr (if getLogLevel (config P) > 0
               then [Log ''INF: Ignored packet for '',
                     LogNum (uint (destAddr (header packet))), LogLn]
             else [], s)
      else
        (let s1 = s\<lparr>rxPacketCounter := rxPacketCounter s + 1, lastRxTime := now\<rparr>;
             ev1 = (if getLogLevel (config P) > 0 then log_packet packet rssi else [])
         in if isAck (decls P) (header packet) then
              Inr (ev1, s1\<lparr>opm := processAck P now (opm s1) packet\<rparr>)
            else
              (let (ev2, s2) = sendAck P now s1 packet in
               if list_ex (\<lambda>r. isDuplicate P r packet now) (packetReport s2) then
                 Inr (ev1 @ ev2 @
                        (if getLogLevel (config P) > 0
                           then [Log ''INF: Ignored duplicate from '',
                                 LogNum (uint (originalSourceAddr (header packet))), LogLn]
                         else []), s2)
               else
                 (let s3 = record_packet now s2 packet in
                  if finalDestAddr (header packet) \<noteq> getAddr (config P) then
                    prefixed (ev1 @ ev2) (Inr (forward P now s3 packet packetLen))
                  else
                    prefixed (ev1 @ ev2) (local_branch P now s3 rssi packet packetLen)))))"

text \<open>
  A run of \<^verbatim>\<open>_process\<close> over the frames received, one call per frame as in the loop of
  \<^verbatim>\<open>pump\<close>. A frame comes with the reading of the clock at its call and its RSSI. The result
  is the effects of each call and the state after the last one.
\<close>

fun processAll ::
    "('opm, 'rx) Ports \<Rightarrow> ('opm, 'rx) MessageProcessor \<Rightarrow> (32 word \<times> 16 word \<times> Packet \<times> nat) list
      \<Rightarrow> fault + (event list list \<times> ('opm, 'rx) MessageProcessor)" where
  "processAll P s [] = Inr ([], s)"
| "processAll P s ((now, rssi, packet, packetLen) # fs) =
     (case process P now s rssi packet packetLen of
        Inl f \<Rightarrow> Inl f
      | Inr (evs, s') \<Rightarrow>
          (case processAll P s' fs of
             Inl f \<Rightarrow> Inl f
           | Inr (evss, s'') \<Rightarrow> Inr (evs # evss, s'')))"

text \<open>
  The frame reaches the lines that record it in the dedup ring (193 to 196): it is accepted,
  is no ACK and is no duplicate.
\<close>

definition records ::
    "('opm, 'rx) Ports \<Rightarrow> 32 word \<Rightarrow> ('opm, 'rx) MessageProcessor \<Rightarrow> Packet \<Rightarrow> nat \<Rightarrow> bool" where
  "records P now s packet packetLen =
     (sizeof_Header (decls P) \<le> packetLen
      \<and> Header.version (header packet) = PACKET_VERSION (decls P)
      \<and> (destAddr (header packet) = BROADCAST_ADDR
          \<or> destAddr (header packet) = getAddr (config P))
      \<and> \<not> isAck (decls P) (header packet)
      \<and> \<not> list_ex (\<lambda>r. isDuplicate P r packet now) (packetReport s))"

text \<open>The number of frames of a run that are recorded in the dedup ring.\<close>

fun recordings ::
    "('opm, 'rx) Ports \<Rightarrow> ('opm, 'rx) MessageProcessor \<Rightarrow> (32 word \<times> 16 word \<times> Packet \<times> nat) list
      \<Rightarrow> nat" where
  "recordings P s [] = 0"
| "recordings P s ((now, rssi, packet, packetLen) # fs) =
     (case process P now s rssi packet packetLen of
        Inl f \<Rightarrow> 0
      | Inr (evs, s') \<Rightarrow>
          (if records P now s packet packetLen then 1 else 0) + recordings P s' fs)"

subsection \<open>Reading the effects\<close>

fun isTransmit :: "event \<Rightarrow> bool" where
  "isTransmit (Transmit _ _ _) = True"
| "isTransmit _ = False"

text \<open>The calls of \<^verbatim>\<open>transmitIfPossible\<close> among the effects, in order.\<close>

definition transmits :: "event list \<Rightarrow> event list" where
  "transmits evs = filter isTransmit evs"

text \<open>The state after the counter of received packets and the time of reception are updated
  (lines 152 and 153).\<close>

definition received ::
    "('opm, 'rx) MessageProcessor \<Rightarrow> 32 word \<Rightarrow> ('opm, 'rx) MessageProcessor" where
  "received s now = s\<lparr>rxPacketCounter := rxPacketCounter s + 1, lastRxTime := now\<rparr>"

text \<open>The log of a received packet (lines 155 to 157) and of a duplicate (lines 184 to 187).\<close>

definition rxLog :: "('opm, 'rx) Ports \<Rightarrow> Packet \<Rightarrow> 16 word \<Rightarrow> event list" where
  "rxLog P packet rssi = (if getLogLevel (config P) > 0 then log_packet packet rssi else [])"

definition dupLog :: "('opm, 'rx) Ports \<Rightarrow> Packet \<Rightarrow> event list" where
  "dupLog P packet =
     (if getLogLevel (config P) > 0
        then [Log ''INF: Ignored duplicate from '',
              LogNum (uint (originalSourceAddr (header packet))), LogLn]
      else [])"

subsection \<open>A concrete node\<close>

text \<open>
  Node 1 of \<^verbatim>\<open>unit-test-2.cpp\<close> with stand-ins for what the headers declare: a header of
  28 bytes, a type byte whose value 1 is an ACK and whose values from 64 on ask for an ACK,
  little-endian payloads, an outbound packet manager of 8 slots and a receive buffer of 16
  frames. The stand-ins serve to run the model on concrete frames.
\<close>

definition testConfig :: Configuration where
  "testConfig =
     \<lparr> getAddr = 1, getCall = [0x4B, 0x43, 0x31, 0x46, 0x53, 0x5A, 0x20, 0x20],
       getLogLevel = 0, getCommandMode = 0, getBootCount = 1, getSleepCount = 1,
       checkPasscode = (\<lambda>c. c = 1234) \<rparr>"

definition testInstrumentation :: Instrumentation where
  "testInstrumentation =
     \<lparr> getSoftwareVersion = 1, getBatteryVoltage = 3800, getPanelVoltage = 4000,
       getTemperature = 23, getHumidity = 87, getDeviceClass = 2, getDeviceRevision = 1 \<rparr>"

definition typeOfCode :: "byte \<Rightarrow> MessageType" where
  "typeOfCode c =
     (if c = 2 then TYPE_PING_REQ else if c = 3 then TYPE_PING_RESP
      else if c = 4 then TYPE_GETSED_REQ else if c = 5 then TYPE_GETSED_RESP
      else if c = 6 then TYPE_RESET else if c = 7 then TYPE_RESET_COUNTERS
      else if c = 8 then TYPE_TEXT else if c = 9 then TYPE_SETROUTE
      else if c = 10 then TYPE_GETROUTE_REQ else if c = 11 then TYPE_GETROUTE_RESP
      else TYPE_OTHER c)"

fun codeOfType :: "MessageType \<Rightarrow> byte" where
  "codeOfType TYPE_PING_REQ = 2"
| "codeOfType TYPE_PING_RESP = 3"
| "codeOfType TYPE_GETSED_REQ = 4"
| "codeOfType TYPE_GETSED_RESP = 5"
| "codeOfType TYPE_RESET = 6"
| "codeOfType TYPE_RESET_COUNTERS = 7"
| "codeOfType TYPE_TEXT = 8"
| "codeOfType TYPE_SETROUTE = 9"
| "codeOfType TYPE_GETROUTE_REQ = 10"
| "codeOfType TYPE_GETROUTE_RESP = 11"
| "codeOfType (TYPE_OTHER c) = c"

definition le16 :: "byte list \<Rightarrow> nat \<Rightarrow> 16 word" where
  "le16 bs i = of_nat (unat (bs ! i) + 256 * unat (bs ! (i + 1)))"

definition le32 :: "byte list \<Rightarrow> nat \<Rightarrow> 32 word" where
  "le32 bs i =
     of_nat (unat (bs ! i) + 256 * unat (bs ! (i + 1)) + 65536 * unat (bs ! (i + 2))
             + 16777216 * unat (bs ! (i + 3)))"

definition bytes16 :: "16 word \<Rightarrow> byte list" where
  "bytes16 w = [of_nat (unat w mod 256), of_nat (unat w div 256)]"

definition bytes32 :: "32 word \<Rightarrow> byte list" where
  "bytes32 w =
     [of_nat (unat w mod 256), of_nat (unat w div 256 mod 256),
      of_nat (unat w div 65536 mod 256), of_nat (unat w div 16777216)]"

definition testDecls :: PacketDecls where
  "testDecls =
     \<lparr> PACKET_VERSION = 2, sizeof_Header = 28, sizeof_ResetReqPayload = 4,
       sizeof_SadRespPayload = 34, sizeof_SetRouteReqPayload = 8,
       sizeof_GetRouteReqPayload = 2, sizeof_GetRouteRespPayload = 8,
       getType = (\<lambda>h. typeOfCode (if type h \<ge> 64 then type h - 64 else type h)),
       isAck = (\<lambda>h. type h = 1),
       isAckRequired = (\<lambda>h. type h \<ge> 64),
       isResponseRequired = (\<lambda>h. type h \<in> {2, 4, 10, 66, 68, 74}),
       ackTemplate = (\<lambda>rx c.
         \<lparr> Header.version = 2, type = 1, id_h = 0, sourceAddr = 0, destAddr = 0,
           originalSourceAddr = getAddr c, finalDestAddr = sourceAddr rx,
           sourceCall = getCall c, originalSourceCall = getCall c \<rparr>),
       setupResponseFor = (\<lambda>rx c t uid firstHop.
         \<lparr> Header.version = 2, type = codeOfType t, id_h = uid, sourceAddr = getAddr c,
           destAddr = firstHop, originalSourceAddr = getAddr c,
           finalDestAddr = originalSourceAddr rx,
           sourceCall = getCall c, originalSourceCall = getCall c \<rparr>),
       unpack_ResetReqPayload = (\<lambda>bs. \<lparr> ResetReqPayload.passcode = le32 bs 0 \<rparr>),
       unpack_SetRouteReqPayload = (\<lambda>bs.
         \<lparr> SetRouteReqPayload.passcode = le32 bs 0, targetAddr = le16 bs 4,
           nextHopAddr = le16 bs 6 \<rparr>),
       unpack_GetRouteReqPayload = (\<lambda>bs. \<lparr> GetRouteReqPayload.targetAddr = le16 bs 0 \<rparr>),
       unpack_GetRouteRespPayload = (\<lambda>bs.
         \<lparr> GetRouteRespPayload.targetAddr = le16 bs 0, nextHopAddr = le16 bs 2,
           txPacketCount = le16 bs 4, rxPacketCount = le16 bs 6 \<rparr>),
       unpack_SadRespPayload = (\<lambda>bs.
         \<lparr> SadRespPayload.version = le16 bs 0, batteryMv = le16 bs 2, panelMv = le16 bs 4,
           uptimeSeconds = le32 bs 6, time = le32 bs 10, bootCount = le16 bs 14,
           sleepCount = le16 bs 16, lastHopRssi = le16 bs 18, temp = le16 bs 20,
           humidity = le16 bs 22, deviceClass = le16 bs 24, deviceRevision = le16 bs 26,
           rxPacketCount = le16 bs 28, badRxPacketCount = le16 bs 30,
           badRouteCount = le16 bs 32 \<rparr>),
       pack_SadRespPayload = (\<lambda>r.
         bytes16 (SadRespPayload.version r) @ bytes16 (batteryMv r) @ bytes16 (panelMv r)
         @ bytes32 (uptimeSeconds r) @ bytes32 (time r) @ bytes16 (bootCount r)
         @ bytes16 (sleepCount r) @ bytes16 (lastHopRssi r) @ bytes16 (temp r)
         @ bytes16 (humidity r) @ bytes16 (deviceClass r) @ bytes16 (deviceRevision r)
         @ bytes16 (SadRespPayload.rxPacketCount r) @ bytes16 (badRxPacketCount r)
         @ bytes16 (badRouteCount r)),
       pack_GetRouteRespPayload = (\<lambda>r.
         bytes16 (GetRouteRespPayload.targetAddr r) @ bytes16 (GetRouteRespPayload.nextHopAddr r)
         @ bytes16 (txPacketCount r) @ bytes16 (GetRouteRespPayload.rxPacketCount r)) \<rparr>"

type_synonym testOpm = "(Packet \<times> nat) list"
type_synonym testRx = "(16 word \<times> Packet \<times> nat) list"

definition testPorts :: "(testOpm, testRx) Ports" where
  "testPorts =
     \<lparr> config = testConfig, instrumentation = testInstrumentation, decls = testDecls,
       NO_ROUTE = 0,
       inDedupWindow = (\<lambda>stamp now. now - stamp < 60000),
       scheduleTransmitIfPossible = (\<lambda>now q p len.
         if length q < 8 then (True, q @ [(p, len)]) else (False, q)),
       processAck = (\<lambda>now q ack.
         filter (\<lambda>(p, len). \<not> (id_h (header p) = id_h (header ack)
                                 \<and> destAddr (header p) = sourceAddr (header ack))) q),
       push = (\<lambda>rx rssi p len.
         if length rx < 16 then (True, rx @ [(rssi, p, len)]) else (False, rx)) \<rparr>"

text \<open>The routes of the unit test (3 by 3, 7 by 3) and a route to node 9 by node 5.\<close>

definition testRoutes :: "nodeaddr_t \<Rightarrow> nodeaddr_t" where
  "testRoutes = (\<lambda>a. if a = 3 then 3 else if a = 7 then 3 else if a = 9 then 5 else 0)"

definition emptyReport :: PacketReport where
  "emptyReport = \<lparr> node = 0, id_r = 0, stamp = 0 \<rparr>"

definition testNode :: "(testOpm, testRx) MessageProcessor" where
  "testNode = init 10000 (replicate 8 emptyReport) 0 [] [] testRoutes"

text \<open>A frame for the tests: type byte, id, hop addresses, end-to-end addresses, payload.\<close>

definition frame ::
    "byte \<Rightarrow> 16 word \<Rightarrow> nodeaddr_t \<Rightarrow> nodeaddr_t \<Rightarrow> nodeaddr_t \<Rightarrow> nodeaddr_t \<Rightarrow> byte list
      \<Rightarrow> Packet" where
  "frame t i src dst osrc fdst pl =
     \<lparr> header = \<lparr> Header.version = 2, type = t, id_h = i, sourceAddr = src, destAddr = dst,
                  originalSourceAddr = osrc, finalDestAddr = fdst,
                  sourceCall = [], originalSourceCall = [] \<rparr>,
       payload = pl \<rparr>"

text \<open>A frame of another protocol version, heard on its way to node 5.\<close>

definition strayFrame :: Packet where
  "strayFrame =
     \<lparr> header = \<lparr> Header.version = 3, type = 8, id_h = 7, sourceAddr = 2, destAddr = 5,
                  originalSourceAddr = 2, finalDestAddr = 5,
                  sourceCall = [], originalSourceCall = [] \<rparr>,
       payload = [] \<rparr>"

text \<open>The effects that are calls of the logger.\<close>

fun isLog :: "event \<Rightarrow> bool" where
  "isLog (Transmit _ _ _) = False"
| "isLog Restart = False"
| "isLog _ = True"

text \<open>
  Ten frames received within one millisecond: a TEXT packet from node 2 for node 9 with id 100,
  eight PING responses from node 2 for this node with ids 1 to 8, and the TEXT packet again.
\<close>

definition ringScript :: "(32 word \<times> 16 word \<times> Packet \<times> nat) list" where
  "ringScript =
     (11000, 0, frame 8 100 2 1 2 9 [0x48, 0x69], 30)
     # map (\<lambda>k. (11000, 0, frame 3 k 2 1 2 1 [], 28)) [1, 2, 3, 4, 5, 6, 7, 8]
     @ [(11000, 0, frame 8 100 2 1 2 9 [0x48, 0x69], 30)]"

text \<open>The calls of \<^verbatim>\<open>transmitIfPossible\<close> of each call of a run.\<close>

definition transmitsOf ::
    "fault + (event list list \<times> 's) \<Rightarrow> fault + event list list" where
  "transmitsOf r = (case r of Inl f \<Rightarrow> Inl f | Inr (evss, s) \<Rightarrow> Inr (map transmits evss))"

text \<open>
  The node with eight packets pending in the outbound packet manager, which is then full, and
  with the packet of id 100 from node 2 recorded in the dedup ring half a second before.
\<close>

definition fullNode :: "(testOpm, testRx) MessageProcessor" where
  "fullNode =
     testNode\<lparr>packetReport := [\<lparr>node = 2, id_r = 100, stamp = 10500\<rparr>,
                               emptyReport, emptyReport, emptyReport, emptyReport,
                               emptyReport, emptyReport, emptyReport],
              packetReportPtr := 1,
              opm := replicate 8 (frame 8 1 1 3 1 7 [], 28)\<rparr>"

text \<open>
  Eleven frames: seven PING responses from node 2 with ids 1 to 7, the TEXT packet with id 100
  twice more, and two frames for node 5.
\<close>

definition busyScript :: "(32 word \<times> 16 word \<times> Packet \<times> nat) list" where
  "busyScript =
     map (\<lambda>k. (11000, 0, frame 3 k 2 1 2 1 [], 28)) [1, 2, 3, 4, 5, 6, 7]
     @ [(11200, 0, frame 8 100 2 1 2 9 [0x48, 0x69], 30),
        (11300, 0, frame 8 100 2 1 2 9 [0x48, 0x69], 30),
        (11400, 0, frame 8 50 2 5 2 5 [], 28),
        (11500, 0, frame 8 51 2 5 2 5 [], 28)]"

section \<open>Properties\<close>

subsection \<open>The paths through the processing of a frame\<close>

lemmas test_defs = testPorts_def testDecls_def testConfig_def testNode_def init_def frame_def
  emptyReport_def testRoutes_def typeOfCode_def testInstrumentation_def strayFrame_def

lemmas full_defs = fullNode_def test_defs

lemmas process_defs = process_def BROADCAST_ADDR_def sendAck_def isDuplicate_def
  record_packet_def local_branch_def dispatch_def nextHop_def handle_TEXT_def memcpy_into_def
  scratch0_def store_at_def prefixed_def forward_def transmitOrLog_def transmitIfPossible_def
  getUniqueId_def setupAckFor_def println_def msg_bad_message_def msg_no_auth_def
  msg_no_route_def Let_def list_ex_iff

lemma transmitIfPossible_frame:
  "idCounter (snd (transmitIfPossible P now s p n)) = idCounter s"
  "startTime (snd (transmitIfPossible P now s p n)) = startTime s"
  "rxPacketCounter (snd (transmitIfPossible P now s p n)) = rxPacketCounter s"
  "badRxPacketCounter (snd (transmitIfPossible P now s p n)) = badRxPacketCounter s"
  "badRouteCounter (snd (transmitIfPossible P now s p n)) = badRouteCounter s"
  "lastRxTime (snd (transmitIfPossible P now s p n)) = lastRxTime s"
  "packetReport (snd (transmitIfPossible P now s p n)) = packetReport s"
  "packetReportPtr (snd (transmitIfPossible P now s p n)) = packetReportPtr s"
  "routingTable (snd (transmitIfPossible P now s p n)) = routingTable s"
  by (simp_all add: transmitIfPossible_def split: prod.split)

lemma transmitOrLog_eq:
  "transmitOrLog P now s p n msg =
     (Transmit p n (fst (transmitIfPossible P now s p n)) #
        (if \<not> fst (transmitIfPossible P now s p n) then println msg else []),
      snd (transmitIfPossible P now s p n))"
  by (simp add: transmitOrLog_def split: prod.split)

lemma sendAck_frame:
  "idCounter (snd (sendAck P now s p)) = idCounter s"
  "startTime (snd (sendAck P now s p)) = startTime s"
  "rxPacketCounter (snd (sendAck P now s p)) = rxPacketCounter s"
  "badRxPacketCounter (snd (sendAck P now s p)) = badRxPacketCounter s"
  "badRouteCounter (snd (sendAck P now s p)) = badRouteCounter s"
  "lastRxTime (snd (sendAck P now s p)) = lastRxTime s"
  "packetReport (snd (sendAck P now s p)) = packetReport s"
  "packetReportPtr (snd (sendAck P now s p)) = packetReportPtr s"
  "routingTable (snd (sendAck P now s p)) = routingTable s"
  by (simp_all add: sendAck_def transmitOrLog_eq transmitIfPossible_frame)

lemma process_short:
  "packetLen < sizeof_Header (decls P) \<Longrightarrow>
   process P now s rssi packet packetLen =
     Inr (println msg_bad_message, s\<lparr>badRxPacketCounter := badRxPacketCounter s + 1\<rparr>)"
  by (simp add: process_def)

lemma process_bad_version:
  "sizeof_Header (decls P) \<le> packetLen \<Longrightarrow>
   Header.version (header packet) \<noteq> PACKET_VERSION (decls P) \<Longrightarrow>
   process P now s rssi packet packetLen =
     Inr (println msg_bad_message, s\<lparr>badRxPacketCounter := badRxPacketCounter s + 1\<rparr>)"
  by (simp add: process_def)

lemma process_overheard:
  "sizeof_Header (decls P) \<le> packetLen \<Longrightarrow>
   Header.version (header packet) = PACKET_VERSION (decls P) \<Longrightarrow>
   destAddr (header packet) \<noteq> BROADCAST_ADDR \<Longrightarrow>
   destAddr (header packet) \<noteq> getAddr (config P) \<Longrightarrow>
   process P now s rssi packet packetLen =
     Inr (if getLogLevel (config P) > 0
            then [Log ''INF: Ignored packet for '', LogNum (uint (destAddr (header packet))), LogLn]
          else [], s)"
  by (simp add: process_def)

lemma process_isAck:
  "sizeof_Header (decls P) \<le> packetLen \<Longrightarrow>
   Header.version (header packet) = PACKET_VERSION (decls P) \<Longrightarrow>
   destAddr (header packet) = BROADCAST_ADDR \<or> destAddr (header packet) = getAddr (config P) \<Longrightarrow>
   isAck (decls P) (header packet) \<Longrightarrow>
   process P now s rssi packet packetLen =
     Inr (rxLog P packet rssi, (received s now)\<lparr>opm := processAck P now (opm s) packet\<rparr>)"
  by (auto simp add: process_def rxLog_def received_def)

lemma process_duplicate:
  "sizeof_Header (decls P) \<le> packetLen \<Longrightarrow>
   Header.version (header packet) = PACKET_VERSION (decls P) \<Longrightarrow>
   destAddr (header packet) = BROADCAST_ADDR \<or> destAddr (header packet) = getAddr (config P) \<Longrightarrow>
   \<not> isAck (decls P) (header packet) \<Longrightarrow>
   list_ex (\<lambda>r. isDuplicate P r packet now) (packetReport s) \<Longrightarrow>
   process P now s rssi packet packetLen =
     Inr (rxLog P packet rssi @ fst (sendAck P now (received s now) packet) @ dupLog P packet,
          snd (sendAck P now (received s now) packet))"
  by (auto simp add: process_def rxLog_def received_def dupLog_def Let_def sendAck_frame case_prod_beta)

lemma process_fresh:
  "sizeof_Header (decls P) \<le> packetLen \<Longrightarrow>
   Header.version (header packet) = PACKET_VERSION (decls P) \<Longrightarrow>
   destAddr (header packet) = BROADCAST_ADDR \<or> destAddr (header packet) = getAddr (config P) \<Longrightarrow>
   \<not> isAck (decls P) (header packet) \<Longrightarrow>
   \<not> list_ex (\<lambda>r. isDuplicate P r packet now) (packetReport s) \<Longrightarrow>
   process P now s rssi packet packetLen =
     prefixed (rxLog P packet rssi @ fst (sendAck P now (received s now) packet))
       (if finalDestAddr (header packet) \<noteq> getAddr (config P)
        then Inr (forward P now (record_packet now (snd (sendAck P now (received s now) packet)) packet)
                    packet packetLen)
        else local_branch P now (record_packet now (snd (sendAck P now (received s now) packet)) packet)
               rssi packet packetLen)"
  by (auto simp add: process_def rxLog_def received_def Let_def sendAck_frame case_prod_beta)

lemma logs_rxLog: "list_all isLog (rxLog P packet rssi)"
  by (simp add: rxLog_def log_packet_def)

lemma logs_dupLog: "list_all isLog (dupLog P packet)"
  by (simp add: dupLog_def)

lemma logs_println: "list_all isLog (println m)"
  by (simp add: println_def)

lemma logs_quiet: "list_all isLog xs \<Longrightarrow> transmits xs = [] \<and> Restart \<notin> set xs"
  by (induction xs) (auto simp add: transmits_def elim: isLog.elims)

lemma transmits_append: "transmits (xs @ ys) = transmits xs @ transmits ys"
  by (simp add: transmits_def)

lemma sendAck_required:
  "isAckRequired (decls P) (header packet) \<Longrightarrow>
   fst (sendAck P now s packet) =
     Transmit \<lparr>header = setupAckFor (decls P) (header packet) (config P), payload = []\<rparr>
       (sizeof_Header (decls P))
       (fst (transmitIfPossible P now s
          \<lparr>header = setupAckFor (decls P) (header packet) (config P), payload = []\<rparr>
          (sizeof_Header (decls P))))
     # (if \<not> fst (transmitIfPossible P now s
          \<lparr>header = setupAckFor (decls P) (header packet) (config P), payload = []\<rparr>
          (sizeof_Header (decls P))) then println ''ERR: Full, no ACK'' else [])"
  by (simp add: sendAck_def transmitOrLog_eq)

lemma forward_route:
  assumes "nextHop (NO_ROUTE P) (routingTable s) (finalDestAddr (header packet)) \<noteq> NO_ROUTE P"
  shows "forward P now s packet packetLen =
     (Transmit (packet\<lparr>header := (header packet)
                  \<lparr>id_h := idCounter s,
                   destAddr := nextHop (NO_ROUTE P) (routingTable s) (finalDestAddr (header packet)),
                   sourceAddr := getAddr (config P)\<rparr>\<rparr>) packetLen
        (fst (transmitIfPossible P now (s\<lparr>idCounter := idCounter s + 1\<rparr>)
           (packet\<lparr>header := (header packet)
                  \<lparr>id_h := idCounter s,
                   destAddr := nextHop (NO_ROUTE P) (routingTable s) (finalDestAddr (header packet)),
                   sourceAddr := getAddr (config P)\<rparr>\<rparr>) packetLen))
      # (if \<not> fst (transmitIfPossible P now (s\<lparr>idCounter := idCounter s + 1\<rparr>)
           (packet\<lparr>header := (header packet)
                  \<lparr>id_h := idCounter s,
                   destAddr := nextHop (NO_ROUTE P) (routingTable s) (finalDestAddr (header packet)),
                   sourceAddr := getAddr (config P)\<rparr>\<rparr>) packetLen)
           then println ''ERR: Full, no forward''
         else if getLogLevel (config P) > 0
           then [Log ''INF: Forward to '',
                 LogNum (uint (nextHop (NO_ROUTE P) (routingTable s) (finalDestAddr (header packet)))),
                 LogLn]
         else []),
      snd (transmitIfPossible P now (s\<lparr>idCounter := idCounter s + 1\<rparr>)
           (packet\<lparr>header := (header packet)
                  \<lparr>id_h := idCounter s,
                   destAddr := nextHop (NO_ROUTE P) (routingTable s) (finalDestAddr (header packet)),
                   sourceAddr := getAddr (config P)\<rparr>\<rparr>) packetLen))"
  using assms by (simp add: forward_def getUniqueId_def Let_def case_prod_beta)

lemma forward_no_route:
  assumes "nextHop (NO_ROUTE P) (routingTable s) (finalDestAddr (header packet)) = NO_ROUTE P"
  shows "forward P now s packet packetLen =
           (println msg_no_route, s\<lparr>badRouteCounter := badRouteCounter s + 1\<rparr>)"
  using assms by (simp add: forward_def Let_def)

lemma record_packet_frame:
  "idCounter (record_packet now s p) = idCounter s"
  "startTime (record_packet now s p) = startTime s"
  "rxPacketCounter (record_packet now s p) = rxPacketCounter s"
  "badRxPacketCounter (record_packet now s p) = badRxPacketCounter s"
  "badRouteCounter (record_packet now s p) = badRouteCounter s"
  "lastRxTime (record_packet now s p) = lastRxTime s"
  "routingTable (record_packet now s p) = routingTable s"
  "opm (record_packet now s p) = opm s"
  "rxBuffer (record_packet now s p) = rxBuffer s"
  by (simp_all add: record_packet_def)

lemma received_frame:
  "idCounter (received s now) = idCounter s"
  "startTime (received s now) = startTime s"
  "rxPacketCounter (received s now) = rxPacketCounter s + 1"
  "badRxPacketCounter (received s now) = badRxPacketCounter s"
  "badRouteCounter (received s now) = badRouteCounter s"
  "lastRxTime (received s now) = now"
  "packetReport (received s now) = packetReport s"
  "packetReportPtr (received s now) = packetReportPtr s"
  "routingTable (received s now) = routingTable s"
  "opm (received s now) = opm s"
  "rxBuffer (received s now) = rxBuffer s"
  by (simp_all add: received_def)

lemma process_local:
  assumes len: "sizeof_Header (decls P) \<le> packetLen"
    and ver: "Header.version (header packet) = PACKET_VERSION (decls P)"
    and dst: "destAddr (header packet) = BROADCAST_ADDR
              \<or> destAddr (header packet) = getAddr (config P)"
    and nack: "\<not> isAck (decls P) (header packet)"
    and fresh: "\<not> list_ex (\<lambda>r. isDuplicate P r packet now) (packetReport s)"
    and local: "finalDestAddr (header packet) = getAddr (config P)"
    and route: "\<not> (isResponseRequired (decls P) (header packet)
                   \<and> nextHop (NO_ROUTE P) (routingTable s) (originalSourceAddr (header packet))
                       = NO_ROUTE P)"
  shows "process P now s rssi packet packetLen =
           prefixed (rxLog P packet rssi @ fst (sendAck P now (received s now) packet))
             (dispatch P now
                (record_packet now (snd (sendAck P now (received s now) packet)) packet)
                rssi packet packetLen
                (nextHop (NO_ROUTE P) (routingTable s) (originalSourceAddr (header packet))))"
  using process_fresh [OF len ver dst nack fresh, of rssi] local route
  by (simp add: local_branch_def Let_def record_packet_frame sendAck_frame received_frame)

lemma process_local_no_route:
  assumes len: "sizeof_Header (decls P) \<le> packetLen"
    and ver: "Header.version (header packet) = PACKET_VERSION (decls P)"
    and dst: "destAddr (header packet) = BROADCAST_ADDR
              \<or> destAddr (header packet) = getAddr (config P)"
    and nack: "\<not> isAck (decls P) (header packet)"
    and fresh: "\<not> list_ex (\<lambda>r. isDuplicate P r packet now) (packetReport s)"
    and local: "finalDestAddr (header packet) = getAddr (config P)"
    and route: "isResponseRequired (decls P) (header packet)
                   \<and> nextHop (NO_ROUTE P) (routingTable s) (originalSourceAddr (header packet))
                       = NO_ROUTE P"
  shows "process P now s rssi packet packetLen =
           Inr (rxLog P packet rssi @ fst (sendAck P now (received s now) packet)
                @ [Log ''ERR: No route to '',
                   LogNum (uint (originalSourceAddr (header packet))), LogLn],
                (record_packet now (snd (sendAck P now (received s now) packet)) packet)
                  \<lparr>badRouteCounter := badRouteCounter s + 1\<rparr>)"
  using process_fresh [OF len ver dst nack fresh, of rssi] local route
  by (simp add: local_branch_def Let_def record_packet_frame sendAck_frame received_frame prefixed_def)








lemma dispatch_text_overflow:
  assumes "getType (decls P) (header packet) = TYPE_TEXT"
    and "sizeof_Header (decls P) + 128 \<le> packetLen"
    and "packetLen - sizeof_Header (decls P) \<le> length (payload packet)"
  shows "dispatch P now s rssi packet packetLen fh = Inl BufferOverflow"
  using assms by (auto simp add: dispatch_def Let_def handle_TEXT_def memcpy_into_def store_at_def scratch0_def)

lemma dispatch_text_fits:
  assumes "getType (decls P) (header packet) = TYPE_TEXT"
    and "packetLen < sizeof_Header (decls P) + 128"
    and "packetLen - sizeof_Header (decls P) \<le> length (payload packet)"
  shows "\<exists>evs. dispatch P now s rssi packet packetLen fh = Inr (evs, s) \<and> list_all isLog evs"
  using assms by (auto simp add: dispatch_def Let_def handle_TEXT_def memcpy_into_def store_at_def scratch0_def)



lemma handle_TEXT_logs:
  "handle_TEXT P packet packetLen = Inr evs \<Longrightarrow>
     Restart \<notin> set evs \<and> Log ''INF: Resetting'' \<notin> set evs"
  by (auto simp add: handle_TEXT_def Let_def split: sum.splits if_splits)

lemma transmitOrLog_quiet:
  "transmitOrLog P now s p n ''ERR: Full, no resp'' = (evs, s') \<Longrightarrow>
     Restart \<notin> set evs \<and> Log ''INF: Resetting'' \<notin> set evs"
  by (auto simp add: transmitOrLog_eq println_def)

lemma dispatch_restart:
  assumes "dispatch P now s rssi packet packetLen fh = Inr (evs, s')"
  shows "Log ''INF: Resetting'' \<notin> set evs
      \<and> (Restart \<in> set evs \<longrightarrow>
           evs = [Restart]
           \<and> getType (decls P) (header packet) = TYPE_RESET
           \<and> sizeof_Header (decls P) + sizeof_ResetReqPayload (decls P) \<le> packetLen
           \<and> checkPasscode (config P)
               (ResetReqPayload.passcode (unpack_ResetReqPayload (decls P) (payload packet))))"
proof (cases "getType (decls P) (header packet)")
  case TYPE_PING_REQ
  with assms show ?thesis
    by (auto simp add: dispatch_def Let_def case_prod_beta dest: transmitOrLog_quiet)
next
  case TYPE_PING_RESP
  with assms show ?thesis
    by (auto simp add: dispatch_def Let_def)
next
  case TYPE_GETSED_REQ
  with assms show ?thesis
    by (auto simp add: dispatch_def Let_def case_prod_beta dest: transmitOrLog_quiet)
next
  case TYPE_GETSED_RESP
  with assms show ?thesis
    by (auto simp add: dispatch_def Let_def println_def log_sadResp_def msg_bad_message_def
        split: if_splits)
next
  case TYPE_RESET
  with assms show ?thesis
    by (auto simp add: dispatch_def Let_def println_def msg_bad_message_def msg_no_auth_def
        split: if_splits)
next
  case TYPE_RESET_COUNTERS
  with assms show ?thesis
    by (auto simp add: dispatch_def Let_def println_def msg_bad_message_def msg_no_auth_def
        split: if_splits)
next
  case TYPE_TEXT
  with assms show ?thesis
    by (auto simp add: dispatch_def Let_def dest: handle_TEXT_logs split: sum.splits)
next
  case TYPE_SETROUTE
  with assms show ?thesis
    by (auto simp add: dispatch_def Let_def println_def msg_bad_message_def msg_no_auth_def
        split: if_splits)
next
  case TYPE_GETROUTE_REQ
  with assms show ?thesis
    by (auto simp add: dispatch_def Let_def case_prod_beta println_def msg_bad_message_def
        dest: transmitOrLog_quiet split: if_splits)
next
  case TYPE_GETROUTE_RESP
  with assms show ?thesis
    by (auto simp add: dispatch_def Let_def println_def msg_bad_message_def
        split: if_splits)
next
  case (TYPE_OTHER x)
  with assms show ?thesis
    by (auto simp add: dispatch_def Let_def println_def)
qed


lemma sendAck_quiet:
  "Restart \<notin> set (fst (sendAck P now s packet))
   \<and> Log ''INF: Resetting'' \<notin> set (fst (sendAck P now s packet))"
  by (simp add: sendAck_def transmitOrLog_eq println_def)

lemma rxLog_quiet:
  "Restart \<notin> set (rxLog P packet rssi) \<and> Log ''INF: Resetting'' \<notin> set (rxLog P packet rssi)"
  by (simp add: rxLog_def log_packet_def)

lemma dupLog_quiet:
  "Restart \<notin> set (dupLog P packet) \<and> Log ''INF: Resetting'' \<notin> set (dupLog P packet)"
  by (simp add: dupLog_def)

lemma forward_quiet:
  "Restart \<notin> set (fst (forward P now s packet packetLen))
   \<and> Log ''INF: Resetting'' \<notin> set (fst (forward P now s packet packetLen))"
  by (simp add: forward_def Let_def case_prod_beta println_def msg_no_route_def)

lemma transmitOrLog_ring:
  "packetReport (snd (transmitOrLog P now s p n msg)) = packetReport s"
  "packetReportPtr (snd (transmitOrLog P now s p n msg)) = packetReportPtr s"
  by (simp_all add: transmitOrLog_eq transmitIfPossible_frame)

lemma forward_ring:
  "packetReport (snd (forward P now s packet packetLen)) = packetReport s"
  "packetReportPtr (snd (forward P now s packet packetLen)) = packetReportPtr s"
  by (simp_all add: forward_def Let_def case_prod_beta getUniqueId_def transmitIfPossible_frame)

lemma dispatch_ring:
  assumes "dispatch P now s rssi packet packetLen fh = Inr (evs, s')"
  shows "packetReport s' = packetReport s \<and> packetReportPtr s' = packetReportPtr s"
proof (cases "getType (decls P) (header packet)")
  case TYPE_PING_REQ
  with assms show ?thesis
    by (auto simp add: dispatch_def Let_def case_prod_beta getUniqueId_def
        transmitOrLog_eq transmitIfPossible_frame)
next
  case TYPE_PING_RESP
  with assms show ?thesis
    by (auto simp add: dispatch_def Let_def)
next
  case TYPE_GETSED_REQ
  with assms show ?thesis
    by (auto simp add: dispatch_def Let_def case_prod_beta getUniqueId_def
        transmitOrLog_eq transmitIfPossible_frame)
next
  case TYPE_GETSED_RESP
  with assms show ?thesis
    by (auto simp add: dispatch_def Let_def split: if_splits)
next
  case TYPE_RESET
  with assms show ?thesis
    by (auto simp add: dispatch_def Let_def split: if_splits)
next
  case TYPE_RESET_COUNTERS
  with assms show ?thesis
    by (auto simp add: dispatch_def Let_def resetCounters_def split: if_splits)
next
  case TYPE_TEXT
  with assms show ?thesis
    by (auto simp add: dispatch_def Let_def split: sum.splits)
next
  case TYPE_SETROUTE
  with assms show ?thesis
    by (auto simp add: dispatch_def Let_def split: if_splits)
next
  case TYPE_GETROUTE_REQ
  with assms show ?thesis
    by (auto simp add: dispatch_def Let_def case_prod_beta getUniqueId_def
        transmitOrLog_eq transmitIfPossible_frame split: if_splits)
next
  case TYPE_GETROUTE_RESP
  with assms show ?thesis
    by (auto simp add: dispatch_def Let_def split: if_splits)
next
  case (TYPE_OTHER x)
  with assms show ?thesis
    by (auto simp add: dispatch_def Let_def)
qed

lemma local_branch_ring:
  assumes "local_branch P now s rssi packet packetLen = Inr (evs, s')"
  shows "packetReport s' = packetReport s \<and> packetReportPtr s' = packetReportPtr s"
  using assms dispatch_ring
  by (fastforce simp add: local_branch_def Let_def split: if_splits)

lemma record_packet_ring:
  "packetReport (record_packet now s packet) =
     (packetReport s)[packetReportPtr s :=
        \<lparr>node = originalSourceAddr (header packet), id_r = id_h (header packet), stamp = now\<rparr>]"
  "packetReportPtr (record_packet now s packet) =
     (packetReportPtr s + 1) mod length (packetReport s)"
  by (simp_all add: record_packet_def)

text \<open>What a call does to the dedup ring: nothing, or one entry written at the pointer.\<close>

lemma process_fresh_ring:
  assumes len: "sizeof_Header (decls P) \<le> packetLen"
    and ver: "Header.version (header packet) = PACKET_VERSION (decls P)"
    and dst: "destAddr (header packet) = BROADCAST_ADDR
              \<or> destAddr (header packet) = getAddr (config P)"
    and nack: "\<not> isAck (decls P) (header packet)"
    and fresh: "\<not> list_ex (\<lambda>r. isDuplicate P r packet now) (packetReport s)"
    and run: "process P now s rssi packet packetLen = Inr (evs, s')"
  shows "packetReport s' =
           (packetReport s)[packetReportPtr s :=
              \<lparr>node = originalSourceAddr (header packet), id_r = id_h (header packet),
               stamp = now\<rparr>]
         \<and> packetReportPtr s' = (packetReportPtr s + 1) mod length (packetReport s)"
proof -
  let ?s3 = "record_packet now (snd (sendAck P now (received s now) packet)) packet"
  have r3: "packetReport ?s3 =
           (packetReport s)[packetReportPtr s :=
              \<lparr>node = originalSourceAddr (header packet), id_r = id_h (header packet),
               stamp = now\<rparr>]"
    "packetReportPtr ?s3 = (packetReportPtr s + 1) mod length (packetReport s)"
    by (simp_all add: record_packet_ring sendAck_frame received_frame)
  show ?thesis
  proof (cases "finalDestAddr (header packet) = getAddr (config P)")
    case False
    from process_fresh [OF len ver dst nack fresh, of rssi] run False
    have "s' = snd (forward P now ?s3 packet packetLen)"
      by (simp add: prefixed_def case_prod_beta)
    then show ?thesis by (simp add: forward_ring r3)
  next
    case True
    from process_fresh [OF len ver dst nack fresh, of rssi] run True
    obtain evs' where "local_branch P now ?s3 rssi packet packetLen = Inr (evs', s')"
      by (auto simp add: prefixed_def split: sum.splits)
    from local_branch_ring [OF this] show ?thesis by (simp add: r3)
  qed
qed

lemma ring_slot_apart:
  fixes i k n :: nat
  assumes "i < n" "0 < k" "k < n"
  shows "(i + k) mod n \<noteq> i"
proof (cases "i + k < n")
  case True
  with assms show ?thesis by simp
next
  case False
  with assms have "(i + k) mod n = i + k - n"
    by (simp add: le_mod_geq)
  with assms False show ?thesis by simp
qed

lemma process_unrecorded:
  assumes run: "process P now s rssi packet packetLen = Inr (evs, s')"
    and no: "\<not> records P now s packet packetLen"
  shows "packetReport s' = packetReport s \<and> packetReportPtr s' = packetReportPtr s"
proof -
  consider (short) "packetLen < sizeof_Header (decls P)"
    | (version) "sizeof_Header (decls P) \<le> packetLen"
        "Header.version (header packet) \<noteq> PACKET_VERSION (decls P)"
    | (overheard) "sizeof_Header (decls P) \<le> packetLen"
        "Header.version (header packet) = PACKET_VERSION (decls P)"
        "destAddr (header packet) \<noteq> BROADCAST_ADDR"
        "destAddr (header packet) \<noteq> getAddr (config P)"
    | (accepted) "sizeof_Header (decls P) \<le> packetLen"
        "Header.version (header packet) = PACKET_VERSION (decls P)"
        "destAddr (header packet) = BROADCAST_ADDR
         \<or> destAddr (header packet) = getAddr (config P)"
    by fastforce
  then show ?thesis
  proof cases
    case short
    from process_short [OF short, of now s rssi packet] run show ?thesis by auto
  next
    case version
    from process_bad_version [OF version, of now s rssi] run show ?thesis by auto
  next
    case overheard
    from process_overheard [OF overheard, of now s rssi] run show ?thesis by auto
  next
    case accepted
    note acc = accepted
    show ?thesis
    proof (cases "isAck (decls P) (header packet)")
      case True
      from process_isAck [OF acc True, of now s rssi] run show ?thesis
        by (auto simp add: received_frame)
    next
      case nack: False
      with acc no have dup: "list_ex (\<lambda>r. isDuplicate P r packet now) (packetReport s)"
        by (simp add: records_def)
      from process_duplicate [OF acc nack dup, of rssi] run show ?thesis
        by (auto simp add: sendAck_frame received_frame)
    qed
  qed
qed

lemma process_recorded:
  assumes run: "process P now s rssi packet packetLen = Inr (evs, s')"
    and yes: "records P now s packet packetLen"
  shows "packetReport s' =
           (packetReport s)[packetReportPtr s :=
              \<lparr>node = originalSourceAddr (header packet), id_r = id_h (header packet),
               stamp = now\<rparr>]
         \<and> packetReportPtr s' = (packetReportPtr s + 1) mod length (packetReport s)"
  using yes process_fresh_ring [of P packetLen packet now s rssi evs s'] run
  by (simp add: records_def)

lemma ring_kept:
  assumes "processAll P s fs = Inr (evss, s')"
    and "i < length (packetReport s)"
    and "packetReport s ! i = e"
    and "packetReportPtr s = (i + 1 + j) mod length (packetReport s)"
    and "j + recordings P s fs < length (packetReport s)"
  shows "packetReport s' ! i = e \<and> length (packetReport s') = length (packetReport s)"
  using assms
proof (induction fs arbitrary: s j evss)
  case Nil
  then show ?case by simp
next
  case (Cons f fs)
  obtain now rssi packet packetLen where f: "f = (now, rssi, packet, packetLen)"
    by (cases f) auto
  from Cons.prems(1) f obtain evs s1 evss' where
    step: "process P now s rssi packet packetLen = Inr (evs, s1)"
    and rest: "processAll P s1 fs = Inr (evss', s')"
    by (auto split: sum.splits)
  let ?n = "length (packetReport s)"
  have count: "recordings P s (f # fs)
                 = (if records P now s packet packetLen then 1 else 0) + recordings P s1 fs"
    by (simp add: f step)
  show ?case
  proof (cases "records P now s packet packetLen")
    case False
    from process_unrecorded [OF step False]
    have same: "packetReport s1 = packetReport s" "packetReportPtr s1 = packetReportPtr s"
      by simp_all
    have "j + recordings P s1 fs < length (packetReport s1)"
      using Cons.prems(5) False by (simp add: count same)
    from Cons.IH [OF rest _ _ _ this] Cons.prems(2-4) same show ?thesis by simp
  next
    case True
    from process_recorded [OF step True]
    obtain e' where ring1: "packetReport s1 = (packetReport s)[packetReportPtr s := e']"
      and ptr1: "packetReportPtr s1 = (packetReportPtr s + 1) mod ?n"
      by blast
    have less: "j + 1 < ?n" using Cons.prems(5) True by (simp add: count)
    have apart: "packetReportPtr s \<noteq> i"
      using ring_slot_apart [of i ?n "j + 1"] Cons.prems(2,4) less by (simp add: add.assoc)
    have len1: "length (packetReport s1) = ?n" by (simp add: ring1)
    have at: "packetReport s1 ! i = e"
      using apart Cons.prems by (simp add: ring1)
    have ptr1': "packetReportPtr s1 = (i + 1 + (j + 1)) mod length (packetReport s1)"
      using Cons.prems(4) by (simp add: ptr1 len1 mod_Suc_eq add.assoc)
    have "(j + 1) + recordings P s1 fs < length (packetReport s1)"
      using Cons.prems(5) True by (simp add: count len1)
    from Cons.IH [OF rest _ at ptr1' this] Cons.prems(2) len1 show ?thesis by simp
  qed
qed

lemma ring8: "replicate 8 x = [x, x, x, x, x, x, x, x]"
  by (simp add: numeral_eq_Suc)

lemma upd_numeral: "(x # xs)[numeral k := y] = x # xs[pred_numeral k := y]"
  by (simp add: numeral_eq_Suc)

lemma dispatch_reset_counters:
  assumes "getType (decls P) (header packet) = TYPE_RESET_COUNTERS"
    and "sizeof_Header (decls P) + sizeof_ResetReqPayload (decls P) \<le> packetLen"
    and "checkPasscode (config P)
            (ResetReqPayload.passcode (unpack_ResetReqPayload (decls P) (payload packet)))"
  shows "dispatch P now s rssi packet packetLen fh
           = Inr (println ''INF: Reset counters'', resetCounters s)"
  using assms by (simp add: dispatch_def Let_def)

subsection \<open>The id counter\<close>

text \<open>
  Claim C7. \<^verbatim>\<open>getUniqueId\<close> returns a 16-bit counter that goes up by one with each call:
  the value a call returns is the counter, the next call returns that value plus one modulo
  65536, after 65535 comes 0, and the constructor starts the counter at 1.
\<close>

theorem getUniqueId_counts:
  "fst (getUniqueId s) = idCounter s
   \<and> fst (getUniqueId (snd (getUniqueId s))) = fst (getUniqueId s) + 1
   \<and> unat (fst (getUniqueId (snd (getUniqueId s)))) = (unat (fst (getUniqueId s)) + 1) mod 65536
   \<and> fst (getUniqueId (snd (getUniqueId (s\<lparr>idCounter := 65535\<rparr>)))) = 0
   \<and> fst (getUniqueId (init now ring ptr o0 rx0 table)) = 1"
  by (simp add: getUniqueId_def init_def unat_word_ariths)

subsection \<open>Resetting the counters\<close>

text \<open>
  Claim C10. \<^verbatim>\<open>resetCounters\<close> sets the three packet counters to zero and leaves the id
  counter, both times, the dedup ring and its pointer, the routing table, the outbound packet
  manager and the receive buffer as they were. A RESET_COUNTERS packet that reaches its
  handler with a complete payload and a passcode that \<^verbatim>\<open>config.checkPasscode\<close> accepts logs
  \<^verbatim>\<open>INF: Reset counters\<close> and applies \<^verbatim>\<open>resetCounters\<close> to the state the common steps
  before the handler left.
\<close>

theorem resetCounters_only_counters:
  "rxPacketCounter (resetCounters s) = 0
   \<and> badRxPacketCounter (resetCounters s) = 0
   \<and> badRouteCounter (resetCounters s) = 0
   \<and> idCounter (resetCounters s) = idCounter s
   \<and> startTime (resetCounters s) = startTime s
   \<and> lastRxTime (resetCounters s) = lastRxTime s
   \<and> packetReport (resetCounters s) = packetReport s
   \<and> packetReportPtr (resetCounters s) = packetReportPtr s
   \<and> routingTable (resetCounters s) = routingTable s
   \<and> opm (resetCounters s) = opm s
   \<and> rxBuffer (resetCounters s) = rxBuffer s
   \<and> (sizeof_Header (decls P) \<le> packetLen
      \<and> Header.version (header packet) = PACKET_VERSION (decls P)
      \<and> (destAddr (header packet) = BROADCAST_ADDR
          \<or> destAddr (header packet) = getAddr (config P))
      \<and> \<not> isAck (decls P) (header packet)
      \<and> \<not> list_ex (\<lambda>r. isDuplicate P r packet now) (packetReport s0)
      \<and> finalDestAddr (header packet) = getAddr (config P)
      \<and> \<not> (isResponseRequired (decls P) (header packet)
             \<and> nextHop (NO_ROUTE P) (routingTable s0) (originalSourceAddr (header packet))
                 = NO_ROUTE P)
      \<and> getType (decls P) (header packet) = TYPE_RESET_COUNTERS
      \<and> sizeof_Header (decls P) + sizeof_ResetReqPayload (decls P) \<le> packetLen
      \<and> checkPasscode (config P)
           (ResetReqPayload.passcode (unpack_ResetReqPayload (decls P) (payload packet)))
     \<longrightarrow> process P now s0 rssi packet packetLen
           = Inr (rxLog P packet rssi @ fst (sendAck P now (received s0 now) packet)
                  @ println ''INF: Reset counters'',
                  resetCounters
                    (record_packet now (snd (sendAck P now (received s0 now) packet)) packet)))"
proof -
  have frame: "rxPacketCounter (resetCounters s) = 0
   \<and> badRxPacketCounter (resetCounters s) = 0
   \<and> badRouteCounter (resetCounters s) = 0
   \<and> idCounter (resetCounters s) = idCounter s
   \<and> startTime (resetCounters s) = startTime s
   \<and> lastRxTime (resetCounters s) = lastRxTime s
   \<and> packetReport (resetCounters s) = packetReport s
   \<and> packetReportPtr (resetCounters s) = packetReportPtr s
   \<and> routingTable (resetCounters s) = routingTable s
   \<and> opm (resetCounters s) = opm s
   \<and> rxBuffer (resetCounters s) = rxBuffer s"
    by (simp add: resetCounters_def)
  have trig: "process P now s0 rssi packet packetLen
           = Inr (rxLog P packet rssi @ fst (sendAck P now (received s0 now) packet)
                  @ println ''INF: Reset counters'',
                  resetCounters
                    (record_packet now (snd (sendAck P now (received s0 now) packet)) packet))"
    if "sizeof_Header (decls P) \<le> packetLen"
      "Header.version (header packet) = PACKET_VERSION (decls P)"
      "destAddr (header packet) = BROADCAST_ADDR
          \<or> destAddr (header packet) = getAddr (config P)"
      "\<not> isAck (decls P) (header packet)"
      "\<not> list_ex (\<lambda>r. isDuplicate P r packet now) (packetReport s0)"
      "finalDestAddr (header packet) = getAddr (config P)"
      "\<not> (isResponseRequired (decls P) (header packet)
             \<and> nextHop (NO_ROUTE P) (routingTable s0) (originalSourceAddr (header packet))
                 = NO_ROUTE P)"
      "getType (decls P) (header packet) = TYPE_RESET_COUNTERS"
      "sizeof_Header (decls P) + sizeof_ResetReqPayload (decls P) \<le> packetLen"
      "checkPasscode (config P)
           (ResetReqPayload.passcode (unpack_ResetReqPayload (decls P) (payload packet)))"
    using that
    by (simp add: process_local [OF that(1-7)] dispatch_reset_counters [OF that(8-10)]
        prefixed_def)
  from frame trig show ?thesis by blast
qed

theorem resetCounters_only_counters_witness:
  "sizeof_Header (decls testPorts) \<le> 32
   \<and> Header.version (header (frame 7 100 2 1 2 1 [0xD2, 4, 0, 0])) = PACKET_VERSION (decls testPorts)
   \<and> destAddr (header (frame 7 100 2 1 2 1 [0xD2, 4, 0, 0])) = getAddr (config testPorts)
   \<and> \<not> isAck (decls testPorts) (header (frame 7 100 2 1 2 1 [0xD2, 4, 0, 0]))
   \<and> \<not> list_ex (\<lambda>r. isDuplicate testPorts r (frame 7 100 2 1 2 1 [0xD2, 4, 0, 0]) 11000)
          (packetReport (testNode\<lparr>badRouteCounter := 3\<rparr>))
   \<and> finalDestAddr (header (frame 7 100 2 1 2 1 [0xD2, 4, 0, 0])) = getAddr (config testPorts)
   \<and> \<not> isResponseRequired (decls testPorts) (header (frame 7 100 2 1 2 1 [0xD2, 4, 0, 0]))
   \<and> getType (decls testPorts) (header (frame 7 100 2 1 2 1 [0xD2, 4, 0, 0]))
       = TYPE_RESET_COUNTERS
   \<and> sizeof_Header (decls testPorts) + sizeof_ResetReqPayload (decls testPorts) \<le> 32
   \<and> checkPasscode (config testPorts)
        (ResetReqPayload.passcode (unpack_ResetReqPayload (decls testPorts) [0xD2, 4, 0, 0]))
   \<and> badRouteCounter (testNode\<lparr>badRouteCounter := 3\<rparr>) = 3
   \<and> process testPorts 11000 (testNode\<lparr>badRouteCounter := 3\<rparr>) 0
          (frame 7 100 2 1 2 1 [0xD2, 4, 0, 0]) 32
       = Inr (println ''INF: Reset counters'',
              resetCounters (record_packet 11000 (received (testNode\<lparr>badRouteCounter := 3\<rparr>) 11000)
                 (frame 7 100 2 1 2 1 [0xD2, 4, 0, 0])))
   \<and> badRouteCounter
        (resetCounters (record_packet 11000 (received (testNode\<lparr>badRouteCounter := 3\<rparr>) 11000)
           (frame 7 100 2 1 2 1 [0xD2, 4, 0, 0]))) = 0
   \<and> idCounter
        (resetCounters (record_packet 11000 (received (testNode\<lparr>badRouteCounter := 3\<rparr>) 11000)
           (frame 7 100 2 1 2 1 [0xD2, 4, 0, 0]))) = 1"
proof -
  let ?p = "frame 7 100 2 1 2 1 [0xD2, 4, 0, 0]"
  let ?s = "testNode\<lparr>badRouteCounter := 3\<rparr>"
  let ?s3 = "record_packet 11000 (received ?s 11000) ?p"
  have h1: "sizeof_Header (decls testPorts) \<le> 32" by (simp add: test_defs)
  have h2: "Header.version (header ?p) = PACKET_VERSION (decls testPorts)"
    by (simp add: test_defs)
  have h3: "destAddr (header ?p) = getAddr (config testPorts)" by (simp add: test_defs)
  have h4: "\<not> isAck (decls testPorts) (header ?p)" by (simp add: test_defs)
  have h5: "\<not> list_ex (\<lambda>r. isDuplicate testPorts r ?p 11000) (packetReport ?s)"
    by (simp add: test_defs isDuplicate_def list_ex_iff)
  have h6: "finalDestAddr (header ?p) = getAddr (config testPorts)" by (simp add: test_defs)
  have h7: "\<not> isResponseRequired (decls testPorts) (header ?p)" by (simp add: test_defs)
  have h8: "getType (decls testPorts) (header ?p) = TYPE_RESET_COUNTERS"
    by (simp add: test_defs)
  have h9: "sizeof_Header (decls testPorts) + sizeof_ResetReqPayload (decls testPorts) \<le> 32"
    by (simp add: test_defs)
  have h10: "checkPasscode (config testPorts)
         (ResetReqPayload.passcode (unpack_ResetReqPayload (decls testPorts) [0xD2, 4, 0, 0]))"
    by (simp add: test_defs le32_def)
  have pl: "payload ?p = [0xD2, 4, 0, 0]" by (simp add: test_defs)
  have e: "rxLog testPorts ?p 0 = []"
     "sendAck testPorts 11000 (received ?s 11000) ?p = ([], received ?s 11000)"
     "badRouteCounter ?s = 3"
    by (simp_all add: test_defs rxLog_def sendAck_def)
  have i: "idCounter ?s3 = 1"
    by (simp add: record_packet_frame received_frame) (simp add: test_defs)
  from resetCounters_only_counters
    [where s = ?s3 and P = testPorts and packetLen = 32 and packet = ?p and now = 11000
       and ?s0.0 = ?s and rssi = 0]
  show ?thesis using h1 h2 h3 h4 h5 h6 h7 h8 h9 h10 i unfolding e pl by simp
qed

subsection \<open>Acknowledgements\<close>

text \<open>
  Claim C1, as stated: for every accepted packet that asks for an ACK, an ACK is enqueued, and
  a duplicate still gets one. The ACK is handed to \<^verbatim>\<open>transmitIfPossible\<close>, which may refuse
  it. On a node whose outbound packet manager is full, a duplicate that asks for an ACK gets
  none: the call reports \<^verbatim>\<open>ERR: Full, no ACK\<close> and neither the outbound packet manager nor
  the receive buffer has changed.
\<close>

theorem ack_lost_when_queue_full:
  "sizeof_Header (decls testPorts) \<le> 30
   \<and> Header.version (header (frame 72 100 2 1 2 9 [0x48, 0x69])) = PACKET_VERSION (decls testPorts)
   \<and> destAddr (header (frame 72 100 2 1 2 9 [0x48, 0x69])) = getAddr (config testPorts)
   \<and> \<not> isAck (decls testPorts) (header (frame 72 100 2 1 2 9 [0x48, 0x69]))
   \<and> isAckRequired (decls testPorts) (header (frame 72 100 2 1 2 9 [0x48, 0x69]))
   \<and> list_ex (\<lambda>r. isDuplicate testPorts r (frame 72 100 2 1 2 9 [0x48, 0x69]) 11000)
        (packetReport fullNode)
   \<and> process testPorts 11000 fullNode 0 (frame 72 100 2 1 2 9 [0x48, 0x69]) 30
       = Inr ([Transmit \<lparr>header = setupAckFor (decls testPorts)
                            (header (frame 72 100 2 1 2 9 [0x48, 0x69])) (config testPorts),
                          payload = []\<rparr> 28 False,
               Log ''ERR: Full, no ACK'', LogLn],
              received fullNode 11000)
   \<and> opm (received fullNode 11000) = opm fullNode
   \<and> rxBuffer (received fullNode 11000) = rxBuffer fullNode"
  by (simp add: process_defs full_defs received_def)

text \<open>
  Claim C1, amended. A frame that \<^verbatim>\<open>_process\<close> accepts (long enough, of the protocol
  version, for this node or for all), that is no ACK and asks for one. The ACK \<open>ack\<close> built by
  \<^verbatim>\<open>setupAckFor\<close> carries the id of the frame, goes to the frame's \<^verbatim>\<open>sourceAddr\<close> and
  comes from this node. After logging the frame, the first thing the call does is to offer
  \<open>ack\<close>, with the length of a header, to the outbound packet manager as it stands at the
  start of the call (to the receive buffer when the frame came from this node itself). The
  answer \<open>good\<close> of that offer and the queue it leaves are the ones the rest of the call goes on
  with: if the offer is accepted the ACK is enqueued, if not, \<^verbatim>\<open>ERR: Full, no ACK\<close> is logged.
  For a duplicate nothing but a log line follows and the state is the one after the offer;
  otherwise the packet is recorded and the forward or the local handler runs from that state,
  so that every response or forward comes after the ACK.
\<close>

theorem ack_before_dedup:
  assumes len: "sizeof_Header (decls P) \<le> packetLen"
    and ver: "Header.version (header packet) = PACKET_VERSION (decls P)"
    and dst: "destAddr (header packet) = BROADCAST_ADDR
              \<or> destAddr (header packet) = getAddr (config P)"
    and nack: "\<not> isAck (decls P) (header packet)"
    and req: "isAckRequired (decls P) (header packet)"
    and ack: "ack = \<lparr>header = setupAckFor (decls P) (header packet) (config P), payload = []\<rparr>"
    and good: "good = (if sourceAddr (header packet) = getAddr (config P)
                       then fst (push P (rxBuffer s) 0 ack (sizeof_Header (decls P)))
                       else fst (scheduleTransmitIfPossible P now (opm s) ack
                                   (sizeof_Header (decls P))))"
    and s2: "s2 = (if sourceAddr (header packet) = getAddr (config P)
                   then (received s now)
                          \<lparr>rxBuffer := snd (push P (rxBuffer s) 0 ack (sizeof_Header (decls P)))\<rparr>
                   else (received s now)
                          \<lparr>opm := snd (scheduleTransmitIfPossible P now (opm s) ack
                                         (sizeof_Header (decls P)))\<rparr>)"
    and full: "full = (if good then [] else println ''ERR: Full, no ACK'')"
  shows "id_h (header ack) = id_h (header packet)
       \<and> destAddr (header ack) = sourceAddr (header packet)
       \<and> sourceAddr (header ack) = getAddr (config P)
       \<and> list_all isLog (rxLog P packet rssi)
       \<and> list_all isLog (full @ dupLog P packet)
       \<and> (list_ex (\<lambda>r. isDuplicate P r packet now) (packetReport s) \<longrightarrow>
            process P now s rssi packet packetLen
              = Inr (rxLog P packet rssi
                     @ Transmit ack (sizeof_Header (decls P)) good # full @ dupLog P packet,
                     s2))
       \<and> (\<not> list_ex (\<lambda>r. isDuplicate P r packet now) (packetReport s) \<longrightarrow>
            process P now s rssi packet packetLen
              = prefixed (rxLog P packet rssi
                          @ Transmit ack (sizeof_Header (decls P)) good # full)
                  (if finalDestAddr (header packet) \<noteq> getAddr (config P)
                   then Inr (forward P now (record_packet now s2 packet) packet packetLen)
                   else local_branch P now (record_packet now s2 packet) rssi packet
                          packetLen))"
proof -
  have d: "destAddr (header ack) = sourceAddr (header packet)"
    "id_h (header ack) = id_h (header packet)"
    "sourceAddr (header ack) = getAddr (config P)"
    by (simp_all add: ack setupAckFor_def)
  have t: "transmitIfPossible P now (received s now) ack (sizeof_Header (decls P)) = (good, s2)"
    by (simp add: transmitIfPossible_def d good s2 received_frame case_prod_beta)
  have sa: "sendAck P now (received s now) packet
              = (Transmit ack (sizeof_Header (decls P)) good # full, s2)"
    using req by (simp add: sendAck_def transmitOrLog_def t ack [symmetric] full)
  have logs: "list_all isLog (full @ dupLog P packet)"
    by (simp add: full logs_println logs_dupLog)
  have dup: "process P now s rssi packet packetLen
              = Inr (rxLog P packet rssi
                     @ Transmit ack (sizeof_Header (decls P)) good # full @ dupLog P packet,
                     s2)"
    if "list_ex (\<lambda>r. isDuplicate P r packet now) (packetReport s)"
    using process_duplicate [OF len ver dst nack that, of rssi] by (simp add: sa)
  have fresh: "process P now s rssi packet packetLen
              = prefixed (rxLog P packet rssi
                          @ Transmit ack (sizeof_Header (decls P)) good # full)
                  (if finalDestAddr (header packet) \<noteq> getAddr (config P)
                   then Inr (forward P now (record_packet now s2 packet) packet packetLen)
                   else local_branch P now (record_packet now s2 packet) rssi packet
                          packetLen)"
    if "\<not> list_ex (\<lambda>r. isDuplicate P r packet now) (packetReport s)"
    using process_fresh [OF len ver dst nack that, of rssi] by (simp add: sa)
  from d logs logs_rxLog [of P packet rssi] dup fresh show ?thesis by blast
qed

theorem ack_before_dedup_witness:
  "sizeof_Header (decls testPorts) \<le> 30
   \<and> Header.version (header (frame 72 100 2 1 2 9 [0x48, 0x69])) = PACKET_VERSION (decls testPorts)
   \<and> destAddr (header (frame 72 100 2 1 2 9 [0x48, 0x69])) = getAddr (config testPorts)
   \<and> \<not> isAck (decls testPorts) (header (frame 72 100 2 1 2 9 [0x48, 0x69]))
   \<and> isAckRequired (decls testPorts) (header (frame 72 100 2 1 2 9 [0x48, 0x69]))
   \<and> sourceAddr (header (frame 72 100 2 1 2 9 [0x48, 0x69])) \<noteq> getAddr (config testPorts)
   \<and> scheduleTransmitIfPossible testPorts 11000 (opm testNode)
        \<lparr>header = setupAckFor (decls testPorts) (header (frame 72 100 2 1 2 9 [0x48, 0x69]))
                    (config testPorts), payload = []\<rparr> 28
       = (True, [(\<lparr>header = setupAckFor (decls testPorts)
                              (header (frame 72 100 2 1 2 9 [0x48, 0x69])) (config testPorts),
                    payload = []\<rparr>, 28)])
   \<and> \<not> list_ex (\<lambda>r. isDuplicate testPorts r (frame 72 100 2 1 2 9 [0x48, 0x69]) 11000)
          (packetReport testNode)
   \<and> process testPorts 11000 testNode 0 (frame 72 100 2 1 2 9 [0x48, 0x69]) 30
       = prefixed [Transmit \<lparr>header = setupAckFor (decls testPorts)
                               (header (frame 72 100 2 1 2 9 [0x48, 0x69])) (config testPorts),
                             payload = []\<rparr> 28 True]
           (Inr (forward testPorts 11000
                   (record_packet 11000
                      ((received testNode 11000)
                         \<lparr>opm := [(\<lparr>header = setupAckFor (decls testPorts)
                                       (header (frame 72 100 2 1 2 9 [0x48, 0x69]))
                                       (config testPorts), payload = []\<rparr>, 28)]\<rparr>)
                      (frame 72 100 2 1 2 9 [0x48, 0x69]))
                   (frame 72 100 2 1 2 9 [0x48, 0x69]) 30))
   \<and> id_h (setupAckFor (decls testPorts) (header (frame 72 100 2 1 2 9 [0x48, 0x69]))
          (config testPorts)) = 100
   \<and> destAddr (setupAckFor (decls testPorts) (header (frame 72 100 2 1 2 9 [0x48, 0x69]))
          (config testPorts)) = 2"
proof -
  let ?p = "frame 72 100 2 1 2 9 [0x48, 0x69]"
  let ?ack = "\<lparr>header = setupAckFor (decls testPorts) (header ?p) (config testPorts),
                payload = []\<rparr>"
  have h1: "sizeof_Header (decls testPorts) \<le> 30" by (simp add: test_defs)
  have h2: "Header.version (header ?p) = PACKET_VERSION (decls testPorts)"
    by (simp add: test_defs)
  have h3: "destAddr (header ?p) = getAddr (config testPorts)" by (simp add: test_defs)
  have h4: "\<not> isAck (decls testPorts) (header ?p)" by (simp add: test_defs)
  have h5: "isAckRequired (decls testPorts) (header ?p)" by (simp add: test_defs)
  have h6: "sourceAddr (header ?p) \<noteq> getAddr (config testPorts)" by (simp add: test_defs)
  have h7: "scheduleTransmitIfPossible testPorts 11000 (opm testNode) ?ack 28
              = (True, [(?ack, 28)])"
    by (simp add: test_defs)
  have h8: "\<not> list_ex (\<lambda>r. isDuplicate testPorts r ?p 11000) (packetReport testNode)"
    by (simp add: test_defs isDuplicate_def list_ex_iff)
  have h9: "finalDestAddr (header ?p) \<noteq> getAddr (config testPorts)" by (simp add: test_defs)
  have sz: "sizeof_Header (decls testPorts) = 28" by (simp add: test_defs)
  have i: "id_h (header ?p) = 100" "sourceAddr (header ?p) = 2" by (simp_all add: test_defs)
  have e: "rxLog testPorts ?p 0 = []" by (simp add: rxLog_def test_defs)
  from ack_before_dedup [OF h1 h2 disjI2 [OF h3] h4 h5 refl refl refl refl,
      where now = 11000 and s = testNode and rssi = 0]
  show ?thesis using h1 h2 h3 h4 h5 h6 h7 h8 h9 unfolding sz i e by simp
qed

subsection \<open>Frames for other nodes\<close>

text \<open>
  Claim C5, as stated: no frame whose \<^verbatim>\<open>destAddr\<close> is neither the broadcast address nor the
  node's own changes \<^verbatim>\<open>badRxPacketCounter\<close>. The length and the version are checked before
  the address: a frame of protocol version 3 on its way to node 5, heard by node 1, is counted
  as a bad frame.
\<close>

theorem overheard_counterexample:
  "destAddr (header strayFrame) \<noteq> BROADCAST_ADDR
   \<and> destAddr (header strayFrame) \<noteq> getAddr (config testPorts)
   \<and> process testPorts 11000 testNode 0 strayFrame 28
       = Inr (println msg_bad_message, testNode\<lparr>badRxPacketCounter := 1\<rparr>)
   \<and> badRxPacketCounter (testNode\<lparr>badRxPacketCounter := 1\<rparr>) \<noteq> badRxPacketCounter testNode"
  by (simp add: process_defs test_defs)

text \<open>
  Claim C5, amended. Every frame whose \<^verbatim>\<open>destAddr\<close> is neither the broadcast address nor
  the node's own is dropped: the call logs at most, transmits nothing (no ACK, no forward, no
  response), does not restart, and leaves the counter of received packets, the counter of bad
  routes, the time of the last reception, the dedup ring and its pointer, the routing table,
  the outbound packet manager, the receive buffer, the id counter and the start time as they
  were. \<^verbatim>\<open>badRxPacketCounter\<close> is unchanged when the frame passes the length check and the
  version check, and one higher when it fails either.
\<close>

theorem overheard_untouched:
  assumes nb: "destAddr (header packet) \<noteq> BROADCAST_ADDR"
    and ns: "destAddr (header packet) \<noteq> getAddr (config P)"
  shows "\<exists>evs s'. process P now s rssi packet packetLen = Inr (evs, s')
           \<and> list_all isLog evs \<and> transmits evs = [] \<and> Restart \<notin> set evs
           \<and> rxPacketCounter s' = rxPacketCounter s
           \<and> badRouteCounter s' = badRouteCounter s
           \<and> lastRxTime s' = lastRxTime s
           \<and> packetReport s' = packetReport s
           \<and> packetReportPtr s' = packetReportPtr s
           \<and> routingTable s' = routingTable s
           \<and> opm s' = opm s
           \<and> rxBuffer s' = rxBuffer s
           \<and> idCounter s' = idCounter s
           \<and> startTime s' = startTime s
           \<and> badRxPacketCounter s' =
               (if sizeof_Header (decls P) \<le> packetLen
                   \<and> Header.version (header packet) = PACKET_VERSION (decls P)
                then badRxPacketCounter s else badRxPacketCounter s + 1)"
proof -
  consider (short) "packetLen < sizeof_Header (decls P)"
    | (version) "sizeof_Header (decls P) \<le> packetLen"
        "Header.version (header packet) \<noteq> PACKET_VERSION (decls P)"
    | (overheard) "sizeof_Header (decls P) \<le> packetLen"
        "Header.version (header packet) = PACKET_VERSION (decls P)"
    by fastforce
  then show ?thesis
  proof cases
    case short
    from process_short [OF short, of now s rssi packet] logs_println [of msg_bad_message]
      logs_quiet [OF logs_println [of msg_bad_message]] short
    show ?thesis by simp
  next
    case version
    from process_bad_version [OF version, of now s rssi] logs_println [of msg_bad_message]
      logs_quiet [OF logs_println [of msg_bad_message]] version
    show ?thesis by simp
  next
    case overheard
    let ?evs = "if getLogLevel (config P) > 0
            then [Log ''INF: Ignored packet for '',
                  LogNum (uint (destAddr (header packet))), LogLn]
          else []"
    have l: "list_all isLog ?evs" by simp
    from process_overheard [OF overheard nb ns, of now s rssi] logs_quiet [OF l] l overheard
    show ?thesis by simp
  qed
qed

theorem overheard_untouched_witness:
  "destAddr (header strayFrame) \<noteq> BROADCAST_ADDR
   \<and> destAddr (header strayFrame) \<noteq> getAddr (config testPorts)
   \<and> Header.version (header strayFrame) \<noteq> PACKET_VERSION (decls testPorts)
   \<and> (\<exists>evs s'. process testPorts 11000 testNode 0 strayFrame 28 = Inr (evs, s')
         \<and> transmits evs = [] \<and> Restart \<notin> set evs
         \<and> rxPacketCounter s' = rxPacketCounter testNode
         \<and> packetReport s' = packetReport testNode
         \<and> opm s' = opm testNode
         \<and> badRxPacketCounter s' = badRxPacketCounter testNode + 1)
   \<and> destAddr (header (frame 8 100 2 5 2 5 [0x48, 0x69])) \<noteq> BROADCAST_ADDR
   \<and> destAddr (header (frame 8 100 2 5 2 5 [0x48, 0x69])) \<noteq> getAddr (config testPorts)
   \<and> sizeof_Header (decls testPorts) \<le> 30
   \<and> Header.version (header (frame 8 100 2 5 2 5 [0x48, 0x69])) = PACKET_VERSION (decls testPorts)
   \<and> (\<exists>evs s'. process testPorts 11000 testNode 0 (frame 8 100 2 5 2 5 [0x48, 0x69]) 30
                   = Inr (evs, s')
         \<and> transmits evs = [] \<and> Restart \<notin> set evs
         \<and> rxPacketCounter s' = rxPacketCounter testNode
         \<and> packetReport s' = packetReport testNode
         \<and> opm s' = opm testNode
         \<and> badRxPacketCounter s' = badRxPacketCounter testNode)"
proof -
  let ?p = "frame 8 100 2 5 2 5 [0x48, 0x69]"
  have g1: "destAddr (header strayFrame) \<noteq> BROADCAST_ADDR"
    by (simp add: test_defs BROADCAST_ADDR_def)
  have g2: "destAddr (header strayFrame) \<noteq> getAddr (config testPorts)"
    by (simp add: test_defs)
  have g3: "Header.version (header strayFrame) \<noteq> PACKET_VERSION (decls testPorts)"
    by (simp add: test_defs)
  have h1: "sizeof_Header (decls testPorts) \<le> 30" by (simp add: test_defs)
  have h2: "Header.version (header ?p) = PACKET_VERSION (decls testPorts)"
    by (simp add: test_defs)
  have h3: "destAddr (header ?p) \<noteq> BROADCAST_ADDR" by (simp add: test_defs BROADCAST_ADDR_def)
  have h4: "destAddr (header ?p) \<noteq> getAddr (config testPorts)" by (simp add: test_defs)
  have a: "\<exists>evs s'. process testPorts 11000 testNode 0 strayFrame 28 = Inr (evs, s')
         \<and> transmits evs = [] \<and> Restart \<notin> set evs
         \<and> rxPacketCounter s' = rxPacketCounter testNode
         \<and> packetReport s' = packetReport testNode
         \<and> opm s' = opm testNode
         \<and> badRxPacketCounter s' = badRxPacketCounter testNode + 1"
    using overheard_untouched [OF g1 g2, of 11000 testNode 0 28] g3 by auto
  have b: "\<exists>evs s'. process testPorts 11000 testNode 0 ?p 30 = Inr (evs, s')
         \<and> transmits evs = [] \<and> Restart \<notin> set evs
         \<and> rxPacketCounter s' = rxPacketCounter testNode
         \<and> packetReport s' = packetReport testNode
         \<and> opm s' = opm testNode
         \<and> badRxPacketCounter s' = badRxPacketCounter testNode"
    using overheard_untouched [OF h3 h4, of 11000 testNode 0 30] h1 h2 by auto
  from a b g1 g2 g3 h1 h2 h3 h4 show ?thesis by blast
qed

subsection \<open>Forwarding\<close>

text \<open>
  Claim C2, as stated: the forwarded packet is transmitted. It is handed to
  \<^verbatim>\<open>transmitIfPossible\<close>, which may refuse it. On a node whose outbound packet manager is
  full, a packet for node 9 is not queued: the call reports \<^verbatim>\<open>ERR: Full, no forward\<close>, the
  outbound packet manager and the receive buffer are as before, and the id drawn for the
  packet is spent.
\<close>

theorem forward_lost_when_queue_full:
  "sizeof_Header (decls testPorts) \<le> 30
   \<and> Header.version (header (frame 8 101 2 1 2 9 [0x48, 0x69])) = PACKET_VERSION (decls testPorts)
   \<and> destAddr (header (frame 8 101 2 1 2 9 [0x48, 0x69])) = getAddr (config testPorts)
   \<and> \<not> isAck (decls testPorts) (header (frame 8 101 2 1 2 9 [0x48, 0x69]))
   \<and> \<not> list_ex (\<lambda>r. isDuplicate testPorts r (frame 8 101 2 1 2 9 [0x48, 0x69]) 11000)
          (packetReport fullNode)
   \<and> finalDestAddr (header (frame 8 101 2 1 2 9 [0x48, 0x69])) \<noteq> getAddr (config testPorts)
   \<and> nextHop (NO_ROUTE testPorts) (routingTable fullNode) 9 = 5
   \<and> NO_ROUTE testPorts = 0
   \<and> process testPorts 11000 fullNode 0 (frame 8 101 2 1 2 9 [0x48, 0x69]) 30
       = Inr ([Transmit (frame 8 1 1 5 2 9 [0x48, 0x69]) 30 False,
               Log ''ERR: Full, no forward'', LogLn],
              (record_packet 11000 (received fullNode 11000)
                 (frame 8 101 2 1 2 9 [0x48, 0x69]))\<lparr>idCounter := 2\<rparr>)
   \<and> opm ((record_packet 11000 (received fullNode 11000)
                 (frame 8 101 2 1 2 9 [0x48, 0x69]))\<lparr>idCounter := 2\<rparr>) = opm fullNode
   \<and> rxBuffer ((record_packet 11000 (received fullNode 11000)
                 (frame 8 101 2 1 2 9 [0x48, 0x69]))\<lparr>idCounter := 2\<rparr>) = rxBuffer fullNode"
  by (simp add: process_defs full_defs received_def)

text \<open>
  Claim C2, amended. A frame that is accepted, is no ACK, is no duplicate and whose
  \<^verbatim>\<open>finalDestAddr\<close> is another node; \<open>s3\<close> is the state once the frame is recorded. If the
  routing table has a next hop \<open>nh\<close> for it, the packet \<open>out\<close> is the frame with the id set
  to the value of \<^verbatim>\<open>getUniqueId\<close>, \<^verbatim>\<open>destAddr\<close> set to \<open>nh\<close> and \<^verbatim>\<open>sourceAddr\<close> set to the
  node's address; every other field of the header and the payload are the frame's. The call
  offers \<open>out\<close>, with the length received, to the outbound packet manager (to the receive
  buffer when \<open>nh\<close> is the node itself); the answer \<open>good\<close> and the queue the offer leaves are
  those of the result. If the offer is accepted the packet is queued, if not,
  \<^verbatim>\<open>ERR: Full, no forward\<close> is logged; either way the id counter has moved on by one. If
  there is no route, the call logs so, adds one to \<^verbatim>\<open>badRouteCounter\<close> and hands over
  nothing for the frame.
\<close>

theorem forward_rewrites_hop_fields:
  assumes len: "sizeof_Header (decls P) \<le> packetLen"
    and ver: "Header.version (header packet) = PACKET_VERSION (decls P)"
    and dst: "destAddr (header packet) = BROADCAST_ADDR
              \<or> destAddr (header packet) = getAddr (config P)"
    and nack: "\<not> isAck (decls P) (header packet)"
    and fresh: "\<not> list_ex (\<lambda>r. isDuplicate P r packet now) (packetReport s)"
    and other: "finalDestAddr (header packet) \<noteq> getAddr (config P)"
    and nh: "nh = nextHop (NO_ROUTE P) (routingTable s) (finalDestAddr (header packet))"
    and out: "out = packet\<lparr>header := (header packet)
                \<lparr>id_h := fst (getUniqueId s), destAddr := nh, sourceAddr := getAddr (config P)\<rparr>\<rparr>"
    and s3: "s3 = record_packet now (snd (sendAck P now (received s now) packet)) packet"
    and good: "good = (if nh = getAddr (config P)
                       then fst (push P (rxBuffer s3) 0 out packetLen)
                       else fst (scheduleTransmitIfPossible P now (opm s3) out packetLen))"
    and s': "s' = (if nh = getAddr (config P)
                   then s3\<lparr>idCounter := idCounter s + 1,
                           rxBuffer := snd (push P (rxBuffer s3) 0 out packetLen)\<rparr>
                   else s3\<lparr>idCounter := idCounter s + 1,
                           opm := snd (scheduleTransmitIfPossible P now (opm s3) out
                                         packetLen)\<rparr>)"
  shows "(nh \<noteq> NO_ROUTE P \<longrightarrow>
            process P now s rssi packet packetLen
              = Inr (rxLog P packet rssi @ fst (sendAck P now (received s now) packet)
                     @ Transmit out packetLen good
                       # (if \<not> good then println ''ERR: Full, no forward''
                          else if getLogLevel (config P) > 0
                            then [Log ''INF: Forward to '', LogNum (uint nh), LogLn]
                          else []),
                     s')
            \<and> payload out = payload packet
            \<and> Header.version (header out) = Header.version (header packet)
            \<and> type (header out) = type (header packet)
            \<and> originalSourceAddr (header out) = originalSourceAddr (header packet)
            \<and> finalDestAddr (header out) = finalDestAddr (header packet)
            \<and> sourceCall (header out) = sourceCall (header packet)
            \<and> originalSourceCall (header out) = originalSourceCall (header packet)
            \<and> id_h (header out) = idCounter s
            \<and> destAddr (header out) = nh
            \<and> sourceAddr (header out) = getAddr (config P)
            \<and> idCounter s' = idCounter s + 1
            \<and> badRouteCounter s' = badRouteCounter s)
       \<and> (nh = NO_ROUTE P \<longrightarrow>
            process P now s rssi packet packetLen
              = Inr (rxLog P packet rssi @ fst (sendAck P now (received s now) packet)
                     @ println msg_no_route,
                     s3\<lparr>badRouteCounter := badRouteCounter s + 1\<rparr>))"
proof -
  have run: "process P now s rssi packet packetLen
        = prefixed (rxLog P packet rssi @ fst (sendAck P now (received s now) packet))
            (Inr (forward P now s3 packet packetLen))"
    using process_fresh [OF len ver dst nack fresh, of rssi] other by (simp add: s3)
  have tbl: "routingTable s3 = routingTable s"
    by (simp add: s3 record_packet_frame sendAck_frame received_frame)
  have idc: "idCounter s3 = idCounter s"
    by (simp add: s3 record_packet_frame sendAck_frame received_frame)
  have brc: "badRouteCounter s3 = badRouteCounter s"
    by (simp add: s3 record_packet_frame sendAck_frame received_frame)
  have fields: "payload out = payload packet
            \<and> Header.version (header out) = Header.version (header packet)
            \<and> type (header out) = type (header packet)
            \<and> originalSourceAddr (header out) = originalSourceAddr (header packet)
            \<and> finalDestAddr (header out) = finalDestAddr (header packet)
            \<and> sourceCall (header out) = sourceCall (header packet)
            \<and> originalSourceCall (header out) = originalSourceCall (header packet)
            \<and> id_h (header out) = idCounter s
            \<and> destAddr (header out) = nh
            \<and> sourceAddr (header out) = getAddr (config P)"
    by (simp add: out getUniqueId_def)
  have cnt: "idCounter s' = idCounter s + 1 \<and> badRouteCounter s' = badRouteCounter s"
    by (simp add: s' brc)
  have t: "transmitIfPossible P now (s3\<lparr>idCounter := idCounter s3 + 1\<rparr>) out packetLen
             = (good, s')"
    using fields by (simp add: transmitIfPossible_def good s' idc case_prod_beta)
  have nh': "nextHop (NO_ROUTE P) (routingTable s3) (finalDestAddr (header packet)) = nh"
    by (simp add: nh tbl)
  have yes: "process P now s rssi packet packetLen
              = Inr (rxLog P packet rssi @ fst (sendAck P now (received s now) packet)
                     @ Transmit out packetLen good
                       # (if \<not> good then println ''ERR: Full, no forward''
                          else if getLogLevel (config P) > 0
                            then [Log ''INF: Forward to '', LogNum (uint nh), LogLn]
                          else []),
                     s')"
    if r: "nh \<noteq> NO_ROUTE P"
  proof -
    from r have r': "nextHop (NO_ROUTE P) (routingTable s3) (finalDestAddr (header packet))
                      \<noteq> NO_ROUTE P"
      by (simp add: nh')
    have o: "packet\<lparr>header := (header packet)
                \<lparr>id_h := idCounter s3, destAddr := nh,
                 sourceAddr := getAddr (config P)\<rparr>\<rparr> = out"
      by (simp add: out idc getUniqueId_def)
    show ?thesis
      by (simp add: run forward_route [OF r'] nh' o t prefixed_def)
  qed
  have no: "process P now s rssi packet packetLen
              = Inr (rxLog P packet rssi @ fst (sendAck P now (received s now) packet)
                     @ println msg_no_route,
                     s3\<lparr>badRouteCounter := badRouteCounter s + 1\<rparr>)"
    if r: "nh = NO_ROUTE P"
  proof -
    from r have r': "nextHop (NO_ROUTE P) (routingTable s3) (finalDestAddr (header packet))
                      = NO_ROUTE P"
      by (simp add: nh')
    show ?thesis
      by (simp add: run forward_no_route [OF r'] prefixed_def brc)
  qed
  from yes no fields cnt show ?thesis by blast
qed


theorem forward_rewrites_hop_fields_witness:
  "sizeof_Header (decls testPorts) \<le> 30
   \<and> Header.version (header (frame 8 100 2 1 2 9 [0x48, 0x69])) = PACKET_VERSION (decls testPorts)
   \<and> destAddr (header (frame 8 100 2 1 2 9 [0x48, 0x69])) = getAddr (config testPorts)
   \<and> \<not> isAck (decls testPorts) (header (frame 8 100 2 1 2 9 [0x48, 0x69]))
   \<and> \<not> list_ex (\<lambda>r. isDuplicate testPorts r (frame 8 100 2 1 2 9 [0x48, 0x69]) 11000)
          (packetReport testNode)
   \<and> finalDestAddr (header (frame 8 100 2 1 2 9 [0x48, 0x69])) \<noteq> getAddr (config testPorts)
   \<and> nextHop (NO_ROUTE testPorts) (routingTable testNode) 9 = 5
   \<and> NO_ROUTE testPorts = 0
   \<and> process testPorts 11000 testNode 0 (frame 8 100 2 1 2 9 [0x48, 0x69]) 30
       = Inr ([Transmit (frame 8 1 1 5 2 9 [0x48, 0x69]) 30 True],
              (record_packet 11000 (received testNode 11000) (frame 8 100 2 1 2 9 [0x48, 0x69]))
                \<lparr>idCounter := 2, opm := [(frame 8 1 1 5 2 9 [0x48, 0x69], 30)]\<rparr>)
   \<and> finalDestAddr (header (frame 8 100 2 1 2 40 [0x48, 0x69])) \<noteq> getAddr (config testPorts)
   \<and> nextHop (NO_ROUTE testPorts) (routingTable testNode) 40 = NO_ROUTE testPorts
   \<and> process testPorts 11000 testNode 0 (frame 8 100 2 1 2 40 [0x48, 0x69]) 30
       = Inr (println msg_no_route,
              (record_packet 11000 (received testNode 11000) (frame 8 100 2 1 2 40 [0x48, 0x69]))
                \<lparr>badRouteCounter := 1\<rparr>)"
proof -
  let ?p = "frame 8 100 2 1 2 9 [0x48, 0x69]"
  let ?q = "frame 8 100 2 1 2 40 [0x48, 0x69]"
  let ?o = "frame 8 1 1 5 2 9 [0x48, 0x69]"
  have h1: "sizeof_Header (decls testPorts) \<le> 30" by (simp add: test_defs)
  have h2: "Header.version (header ?p) = PACKET_VERSION (decls testPorts)"
    "Header.version (header ?q) = PACKET_VERSION (decls testPorts)"
    by (simp_all add: test_defs)
  have h3: "destAddr (header ?p) = getAddr (config testPorts)"
    "destAddr (header ?q) = getAddr (config testPorts)" by (simp_all add: test_defs)
  have h4: "\<not> isAck (decls testPorts) (header ?p)" "\<not> isAck (decls testPorts) (header ?q)"
    by (simp_all add: test_defs)
  have h5: "\<not> list_ex (\<lambda>r. isDuplicate testPorts r ?p 11000) (packetReport testNode)"
    "\<not> list_ex (\<lambda>r. isDuplicate testPorts r ?q 11000) (packetReport testNode)"
    by (simp_all add: test_defs isDuplicate_def list_ex_iff)
  have h6: "finalDestAddr (header ?p) \<noteq> getAddr (config testPorts)"
    "finalDestAddr (header ?q) \<noteq> getAddr (config testPorts)" by (simp_all add: test_defs)
  have n: "nextHop (NO_ROUTE testPorts) (routingTable testNode) 9 = 5"
    "nextHop (NO_ROUTE testPorts) (routingTable testNode) 40 = NO_ROUTE testPorts"
    "NO_ROUTE testPorts = 0"
    by (simp_all add: test_defs nextHop_def)
  have n': "5 = nextHop (NO_ROUTE testPorts) (routingTable testNode) (finalDestAddr (header ?p))"
    "0 = nextHop (NO_ROUTE testPorts) (routingTable testNode) (finalDestAddr (header ?q))"
    by (simp_all add: test_defs nextHop_def)
  have o: "?o = ?p\<lparr>header := (header ?p)
                \<lparr>id_h := fst (getUniqueId testNode), destAddr := 5,
                 sourceAddr := getAddr (config testPorts)\<rparr>\<rparr>"
    by (simp add: test_defs getUniqueId_def)
  have e: "rxLog testPorts ?p 0 = []" "rxLog testPorts ?q 0 = []"
     "sendAck testPorts 11000 (received testNode 11000) ?p = ([], received testNode 11000)"
     "sendAck testPorts 11000 (received testNode 11000) ?q = ([], received testNode 11000)"
     "idCounter testNode = 1" "badRouteCounter testNode = 0"
     "getAddr (config testPorts) = 1" "getLogLevel (config testPorts) = 0"
    by (simp_all add: test_defs rxLog_def sendAck_def)
  have q: "opm (record_packet 11000 (received testNode 11000) ?p) = []"
    by (simp add: record_packet_frame received_frame) (simp add: test_defs)
  have sch: "scheduleTransmitIfPossible testPorts 11000 [] ?o 30 = (True, [(?o, 30)])"
    by (simp add: test_defs)
  have a: "process testPorts 11000 testNode 0 ?p 30
       = Inr ([Transmit ?o 30 True],
              (record_packet 11000 (received testNode 11000) ?p)
                \<lparr>idCounter := 2, opm := [(?o, 30)]\<rparr>)"
    using forward_rewrites_hop_fields
      [OF h1 h2(1) disjI2 [OF h3(1)] h4(1) h5(1) h6(1) n'(1) o refl refl refl,
        where rssi = 0, THEN conjunct1]
    unfolding e by (simp add: n q sch)
  have b: "process testPorts 11000 testNode 0 ?q 30
       = Inr (println msg_no_route,
              (record_packet 11000 (received testNode 11000) ?q)\<lparr>badRouteCounter := 1\<rparr>)"
    using forward_rewrites_hop_fields
      [OF h1 h2(2) disjI2 [OF h3(2)] h4(2) h5(2) h6(2) n'(2) refl refl refl refl,
        where rssi = 0, THEN conjunct2]
    unfolding e by (simp add: n)
  from a b h1 h2 h3 h4 h5 h6 n show ?thesis by simp
qed

subsection \<open>Unauthorized requests\<close>



subsection \<open>Malformed frames\<close>





subsection \<open>The scratch buffer of the TEXT handler\<close>

text \<open>
  Claim C8 says that the copy of the text into \<^verbatim>\<open>char scratch[128]\<close> and the terminator
  written after it stay within the buffer for every length \<^verbatim>\<open>_process\<close> accepts. They do
  not: for a TEXT packet that reaches its handler with 128 bytes of text or more (a frame of
  \<^verbatim>\<open>sizeof(Header) + 128\<close> bytes or more, whose payload array holds the bytes received), the
  terminator, and beyond 128 bytes the copy itself, is written outside the buffer.
\<close>

theorem text_overflows_scratch:
  assumes len: "sizeof_Header (decls P) \<le> packetLen"
    and ver: "Header.version (header packet) = PACKET_VERSION (decls P)"
    and dst: "destAddr (header packet) = BROADCAST_ADDR
              \<or> destAddr (header packet) = getAddr (config P)"
    and nack: "\<not> isAck (decls P) (header packet)"
    and fresh: "\<not> list_ex (\<lambda>r. isDuplicate P r packet now) (packetReport s)"
    and local: "finalDestAddr (header packet) = getAddr (config P)"
    and route: "\<not> (isResponseRequired (decls P) (header packet)
                   \<and> nextHop (NO_ROUTE P) (routingTable s) (originalSourceAddr (header packet))
                       = NO_ROUTE P)"
    and ttext: "getType (decls P) (header packet) = TYPE_TEXT"
    and tlong: "sizeof_Header (decls P) + 128 \<le> packetLen"
    and held: "packetLen - sizeof_Header (decls P) \<le> length (payload packet)"
  shows "process P now s rssi packet packetLen = Inl BufferOverflow"
  by (simp add: process_local [OF len ver dst nack fresh local route]
      dispatch_text_overflow [OF ttext tlong held] prefixed_def)

theorem text_overflows_scratch_witness:
  "sizeof_Header (decls testPorts) \<le> 156
   \<and> Header.version (header (frame 8 100 2 1 2 1 (replicate 128 65))) = PACKET_VERSION (decls testPorts)
   \<and> destAddr (header (frame 8 100 2 1 2 1 (replicate 128 65))) = getAddr (config testPorts)
   \<and> \<not> isAck (decls testPorts) (header (frame 8 100 2 1 2 1 (replicate 128 65)))
   \<and> \<not> list_ex (\<lambda>r. isDuplicate testPorts r (frame 8 100 2 1 2 1 (replicate 128 65)) 11000)
          (packetReport testNode)
   \<and> finalDestAddr (header (frame 8 100 2 1 2 1 (replicate 128 65))) = getAddr (config testPorts)
   \<and> \<not> isResponseRequired (decls testPorts) (header (frame 8 100 2 1 2 1 (replicate 128 65)))
   \<and> getType (decls testPorts) (header (frame 8 100 2 1 2 1 (replicate 128 65))) = TYPE_TEXT
   \<and> sizeof_Header (decls testPorts) + 128 \<le> 156
   \<and> 156 - sizeof_Header (decls testPorts) \<le> length (payload (frame 8 100 2 1 2 1 (replicate 128 65)))
   \<and> process testPorts 11000 testNode 0 (frame 8 100 2 1 2 1 (replicate 128 65)) 156
       = Inl BufferOverflow"
proof -
  let ?p = "frame 8 100 2 1 2 1 (replicate 128 65)"
  have h1: "sizeof_Header (decls testPorts) \<le> 156" by (simp add: test_defs)
  have h2: "Header.version (header ?p) = PACKET_VERSION (decls testPorts)"
    by (simp add: test_defs)
  have h3: "destAddr (header ?p) = getAddr (config testPorts)" by (simp add: test_defs)
  have h4: "\<not> isAck (decls testPorts) (header ?p)" by (simp add: test_defs)
  have h5: "\<not> list_ex (\<lambda>r. isDuplicate testPorts r ?p 11000) (packetReport testNode)"
    by (simp add: test_defs isDuplicate_def list_ex_iff)
  have h6: "finalDestAddr (header ?p) = getAddr (config testPorts)" by (simp add: test_defs)
  have h7: "\<not> isResponseRequired (decls testPorts) (header ?p)" by (simp add: test_defs)
  have h8: "getType (decls testPorts) (header ?p) = TYPE_TEXT" by (simp add: test_defs)
  have h9: "sizeof_Header (decls testPorts) + 128 \<le> 156" by (simp add: test_defs)
  have h10: "156 - sizeof_Header (decls testPorts) \<le> length (payload ?p)"
    by (simp add: test_defs)
  have r: "\<not> (isResponseRequired (decls testPorts) (header ?p)
                   \<and> nextHop (NO_ROUTE testPorts) (routingTable testNode)
                        (originalSourceAddr (header ?p)) = NO_ROUTE testPorts)"
    using h7 by simp
  from text_overflows_scratch [OF h1 h2 disjI2 [OF h3] h4 h5 h6 r h8 h9 h10, of 0]
  show ?thesis using h1 h2 h3 h4 h5 h6 h7 h8 h9 h10 by simp
qed

subsection \<open>Restarting\<close>

text \<open>
  Claim C9. Whatever the frame, the second test for \<^verbatim>\<open>TYPE_RESET\<close> (the branch that logs
  \<^verbatim>\<open>INF: Resetting\<close> and restarts without looking at a passcode) is never taken: that line
  is never logged. If a call restarts the node, the packet is a RESET, long enough for its
  payload, with a passcode that \<^verbatim>\<open>config.checkPasscode\<close> accepts, and the restart is the last
  effect of the call, after the log of the frame and the ACK.
\<close>

theorem restart_needs_passcode:
  assumes run: "process P now s rssi packet packetLen = Inr (evs, s')"
  shows "Log ''INF: Resetting'' \<notin> set evs
       \<and> (Restart \<in> set evs \<longrightarrow>
            getType (decls P) (header packet) = TYPE_RESET
            \<and> sizeof_Header (decls P) + sizeof_ResetReqPayload (decls P) \<le> packetLen
            \<and> checkPasscode (config P)
                (ResetReqPayload.passcode (unpack_ResetReqPayload (decls P) (payload packet)))
            \<and> evs = rxLog P packet rssi @ fst (sendAck P now (received s now) packet)
                    @ [Restart])"
proof -
  let ?goal = "Log ''INF: Resetting'' \<notin> set evs
       \<and> (Restart \<in> set evs \<longrightarrow>
            getType (decls P) (header packet) = TYPE_RESET
            \<and> sizeof_Header (decls P) + sizeof_ResetReqPayload (decls P) \<le> packetLen
            \<and> checkPasscode (config P)
                (ResetReqPayload.passcode (unpack_ResetReqPayload (decls P) (payload packet)))
            \<and> evs = rxLog P packet rssi @ fst (sendAck P now (received s now) packet)
                    @ [Restart])"
  let ?ack = "fst (sendAck P now (received s now) packet)"
  let ?s3 = "record_packet now (snd (sendAck P now (received s now) packet)) packet"
  let ?fh = "nextHop (NO_ROUTE P) (routingTable s) (originalSourceAddr (header packet))"
  note pre = rxLog_quiet [of P packet rssi] sendAck_quiet [of P now "received s now" packet]
  consider (short) "packetLen < sizeof_Header (decls P)"
    | (version) "sizeof_Header (decls P) \<le> packetLen"
        "Header.version (header packet) \<noteq> PACKET_VERSION (decls P)"
    | (overheard) "sizeof_Header (decls P) \<le> packetLen"
        "Header.version (header packet) = PACKET_VERSION (decls P)"
        "destAddr (header packet) \<noteq> BROADCAST_ADDR"
        "destAddr (header packet) \<noteq> getAddr (config P)"
    | (accepted) "sizeof_Header (decls P) \<le> packetLen"
        "Header.version (header packet) = PACKET_VERSION (decls P)"
        "destAddr (header packet) = BROADCAST_ADDR
         \<or> destAddr (header packet) = getAddr (config P)"
    by fastforce
  then show ?thesis
  proof cases
    case short
    from process_short [OF short, of now s rssi packet] run show ?thesis
      by (auto simp add: println_def msg_bad_message_def)
  next
    case version
    from process_bad_version [OF version, of now s rssi] run show ?thesis
      by (auto simp add: println_def msg_bad_message_def)
  next
    case overheard
    from process_overheard [OF overheard, of now s rssi] run show ?thesis
      by (auto split: if_splits)
  next
    case accepted
    note acc = accepted
    show ?thesis
    proof (cases "isAck (decls P) (header packet)")
      case True
      from process_isAck [OF acc True, of now s rssi] run pre show ?thesis
        by auto
    next
      case nack: False
      show ?thesis
      proof (cases "list_ex (\<lambda>r. isDuplicate P r packet now) (packetReport s)")
        case True
        from process_duplicate [OF acc nack True, of rssi] run
        have "evs = rxLog P packet rssi @ ?ack @ dupLog P packet" by simp
        with pre dupLog_quiet [of P packet] show ?thesis by auto
      next
        case fresh: False
        show ?thesis
        proof (cases "finalDestAddr (header packet) = getAddr (config P)")
          case False
          from process_fresh [OF acc nack fresh, of rssi] run False
          have "evs = rxLog P packet rssi @ ?ack @ fst (forward P now ?s3 packet packetLen)"
            by (simp add: prefixed_def case_prod_beta)
          with pre forward_quiet [of P now ?s3 packet packetLen] show ?thesis by auto
        next
          case local: True
          show ?thesis
          proof (cases "isResponseRequired (decls P) (header packet) \<and> ?fh = NO_ROUTE P")
            case True
            from process_local_no_route [OF acc nack fresh local True, of rssi] run
            have "evs = rxLog P packet rssi @ ?ack @ [Log ''ERR: No route to '',
                   LogNum (uint (originalSourceAddr (header packet))), LogLn]"
              by simp
            with pre show ?thesis by auto
          next
            case False
            from process_local [OF acc nack fresh local False, of rssi] run
            obtain evs' where d: "dispatch P now ?s3 rssi packet packetLen ?fh = Inr (evs', s')"
              and e: "evs = (rxLog P packet rssi @ ?ack) @ evs'"
              by (auto simp add: prefixed_def split: sum.splits)
            from dispatch_restart [OF d] pre e show ?thesis by auto
          qed
        qed
      qed
    qed
  qed
qed

theorem restart_needs_passcode_witness:
  "\<exists>s'. process testPorts 11000 testNode 0 (frame 6 100 2 1 2 1 [0xD2, 4, 0, 0]) 32
            = Inr ([Restart], s')
        \<and> Restart \<in> set [Restart]
        \<and> Log ''INF: Resetting'' \<notin> set [Restart]
        \<and> getType (decls testPorts) (header (frame 6 100 2 1 2 1 [0xD2, 4, 0, 0])) = TYPE_RESET
        \<and> sizeof_Header (decls testPorts) + sizeof_ResetReqPayload (decls testPorts) \<le> 32
        \<and> checkPasscode (config testPorts)
             (ResetReqPayload.passcode
                (unpack_ResetReqPayload (decls testPorts)
                   (payload (frame 6 100 2 1 2 1 [0xD2, 4, 0, 0]))))"
proof -
  obtain s' where run:
    "process testPorts 11000 testNode 0 (frame 6 100 2 1 2 1 [0xD2, 4, 0, 0]) 32
       = Inr ([Restart], s')"
    by (simp add: process_defs test_defs le32_def)
  from restart_needs_passcode [OF run] run show ?thesis
    by auto
qed

subsection \<open>Duplicates\<close>

text \<open>
  Claim C3, as stated: of two packets with the same \<^verbatim>\<open>(originalSourceAddr, id)\<close> received
  within the dedup window, at most one is forwarded or handled. The ring has a fixed number of
  slots and the oldest entry is overwritten: with a ring of 8 slots, a packet for node 9 that
  is received, followed by eight other packets and then by itself, all within the same
  millisecond, is forwarded twice.
\<close>

theorem dedup_ring_overwritten:
  "originalSourceAddr (header (frame 8 100 2 1 2 9 [0x48, 0x69])) = 2
   \<and> id_h (header (frame 8 100 2 1 2 9 [0x48, 0x69])) = 100
   \<and> inDedupWindow testPorts 11000 11000
   \<and> length (packetReport testNode) = 8
   \<and> transmitsOf (processAll testPorts testNode ringScript)
       = Inr [[Transmit (frame 8 1 1 5 2 9 [0x48, 0x69]) 30 True],
              [], [], [], [], [], [], [], [],
              [Transmit (frame 8 2 1 5 2 9 [0x48, 0x69]) 30 True]]"
  by (simp add: ringScript_def transmitsOf_def transmits_def process_defs test_defs ring8
      upd_numeral)

text \<open>
  Claim C3, amended. A packet \<open>r1\<close> that is accepted, is no ACK and is no duplicate is recorded
  in the dedup ring at the pointer, with the time of the call, and the pointer moves on by one
  modulo the number of slots. Whatever frames are processed after it, as long as fewer of them
  are recorded in the ring than the ring has slots (frames that are malformed, overheard, ACKs
  or duplicates are not recorded), a packet \<open>r2\<close> that is accepted, is no ACK, has the
  \<^verbatim>\<open>originalSourceAddr\<close> and the id of \<open>r1\<close> and arrives within the window of the recorded
  time is dropped at the duplicate check: the call logs, offers the ACK if one is asked for,
  and does nothing else, so that the ring, the id counter and the routing table are untouched
  and neither a forward nor a handler runs.
\<close>

theorem duplicate_dropped_while_recorded:
  assumes len1: "sizeof_Header (decls P) \<le> len1"
    and ver1: "Header.version (header r1) = PACKET_VERSION (decls P)"
    and dst1: "destAddr (header r1) = BROADCAST_ADDR \<or> destAddr (header r1) = getAddr (config P)"
    and nack1: "\<not> isAck (decls P) (header r1)"
    and fresh1: "\<not> list_ex (\<lambda>r. isDuplicate P r r1 t1) (packetReport s0)"
    and ptr: "packetReportPtr s0 < length (packetReport s0)"
    and run1: "process P t1 s0 rssi1 r1 len1 = Inr (evs1, s1)"
    and between: "processAll P s1 fs = Inr (evss, s2)"
    and few: "recordings P s1 fs < length (packetReport s0)"
    and len2: "sizeof_Header (decls P) \<le> len2"
    and ver2: "Header.version (header r2) = PACKET_VERSION (decls P)"
    and dst2: "destAddr (header r2) = BROADCAST_ADDR \<or> destAddr (header r2) = getAddr (config P)"
    and nack2: "\<not> isAck (decls P) (header r2)"
    and same: "originalSourceAddr (header r2) = originalSourceAddr (header r1)"
      "id_h (header r2) = id_h (header r1)"
    and window: "inDedupWindow P t1 t2"
  shows "packetReport s1 =
           (packetReport s0)[packetReportPtr s0 :=
              \<lparr>node = originalSourceAddr (header r1), id_r = id_h (header r1), stamp = t1\<rparr>]
       \<and> packetReportPtr s1 = (packetReportPtr s0 + 1) mod length (packetReport s0)
       \<and> process P t2 s2 rssi2 r2 len2 =
           Inr (rxLog P r2 rssi2 @ fst (sendAck P t2 (received s2 t2) r2) @ dupLog P r2,
                snd (sendAck P t2 (received s2 t2) r2))
       \<and> packetReport (snd (sendAck P t2 (received s2 t2) r2)) = packetReport s2
       \<and> idCounter (snd (sendAck P t2 (received s2 t2) r2)) = idCounter s2
       \<and> routingTable (snd (sendAck P t2 (received s2 t2) r2)) = routingTable s2"
proof -
  let ?e = "\<lparr>node = originalSourceAddr (header r1), id_r = id_h (header r1), stamp = t1\<rparr>"
  let ?i = "packetReportPtr s0"
  let ?n = "length (packetReport s0)"
  from process_fresh_ring [OF len1 ver1 dst1 nack1 fresh1 run1]
  have ring1: "packetReport s1 = (packetReport s0)[?i := ?e]"
    and ptr1: "packetReportPtr s1 = (?i + 1) mod ?n"
    by simp_all
  have n1: "length (packetReport s1) = ?n" by (simp add: ring1)
  have i1: "?i < length (packetReport s1)" using ptr by (simp add: n1)
  have at1: "packetReport s1 ! ?i = ?e" using ptr by (simp add: ring1)
  have p1: "packetReportPtr s1 = (?i + 1 + 0) mod length (packetReport s1)"
    by (simp add: ptr1 n1)
  have f1: "0 + recordings P s1 fs < length (packetReport s1)" using few by (simp add: n1)
  from ring_kept [OF between i1 at1 p1 f1]
  have at2: "packetReport s2 ! ?i = ?e" and n2: "length (packetReport s2) = ?n"
    by (simp_all add: n1)
  have "?e \<in> set (packetReport s2)"
    using at2 ptr n2 nth_mem [of ?i "packetReport s2"] by simp
  moreover have "isDuplicate P ?e r2 t2"
    by (simp add: isDuplicate_def same window)
  ultimately have dup: "list_ex (\<lambda>r. isDuplicate P r r2 t2) (packetReport s2)"
    by (auto simp add: list_ex_iff)
  from process_duplicate [OF len2 ver2 dst2 nack2 dup, of rssi2] ring1 ptr1
  show ?thesis by (simp add: sendAck_frame received_frame)
qed

theorem duplicate_dropped_while_recorded_witness:
  "sizeof_Header (decls testPorts) \<le> 30
   \<and> Header.version (header (frame 8 100 2 1 2 9 [0x48, 0x69])) = PACKET_VERSION (decls testPorts)
   \<and> destAddr (header (frame 8 100 2 1 2 9 [0x48, 0x69])) = getAddr (config testPorts)
   \<and> \<not> isAck (decls testPorts) (header (frame 8 100 2 1 2 9 [0x48, 0x69]))
   \<and> \<not> list_ex (\<lambda>r. isDuplicate testPorts r (frame 8 100 2 1 2 9 [0x48, 0x69]) 11000)
          (packetReport testNode)
   \<and> packetReportPtr testNode < length (packetReport testNode)
   \<and> length busyScript = 11
   \<and> length (packetReport testNode) = 8
   \<and> inDedupWindow testPorts 11000 12000
   \<and> (\<exists>evs1 s1 evss s2.
         process testPorts 11000 testNode 0 (frame 8 100 2 1 2 9 [0x48, 0x69]) 30 = Inr (evs1, s1)
         \<and> processAll testPorts s1 busyScript = Inr (evss, s2)
         \<and> recordings testPorts s1 busyScript = 7
         \<and> packetReportPtr s1 = 1
         \<and> process testPorts 12000 s2 0 (frame 8 100 2 1 2 9 [0x48, 0x69]) 30
             = Inr ([], snd (sendAck testPorts 12000 (received s2 12000)
                               (frame 8 100 2 1 2 9 [0x48, 0x69]))))"
proof -
  let ?p = "frame 8 100 2 1 2 9 [0x48, 0x69]"
  have h1: "sizeof_Header (decls testPorts) \<le> 30" by (simp add: test_defs)
  have h2: "Header.version (header ?p) = PACKET_VERSION (decls testPorts)"
    by (simp add: test_defs)
  have h3: "destAddr (header ?p) = getAddr (config testPorts)" by (simp add: test_defs)
  have h4: "\<not> isAck (decls testPorts) (header ?p)" by (simp add: test_defs)
  have h5: "\<not> list_ex (\<lambda>r. isDuplicate testPorts r ?p 11000) (packetReport testNode)"
    by (simp add: test_defs isDuplicate_def list_ex_iff)
  have h6: "packetReportPtr testNode < length (packetReport testNode)"
    by (simp add: test_defs)
  have h7: "length busyScript = 11" "length (packetReport testNode) = 8"
    by (simp_all add: test_defs busyScript_def)
  have h8: "inDedupWindow testPorts 11000 12000" by (simp add: test_defs)
  have "\<exists>evs1 s1. process testPorts 11000 testNode 0 ?p 30 = Inr (evs1, s1)
          \<and> (\<exists>evss s2. processAll testPorts s1 busyScript = Inr (evss, s2))
          \<and> recordings testPorts s1 busyScript = 7"
    by (simp add: busyScript_def records_def process_defs test_defs ring8 upd_numeral)
  then obtain evs1 s1 evss s2 where
    run1: "process testPorts 11000 testNode 0 ?p 30 = Inr (evs1, s1)"
    and between: "processAll testPorts s1 busyScript = Inr (evss, s2)"
    and cnt: "recordings testPorts s1 busyScript = 7"
    by blast
  have few: "recordings testPorts s1 busyScript < length (packetReport testNode)"
    by (simp add: cnt h7)
  have e: "rxLog testPorts ?p 0 = []" "dupLog testPorts ?p = []"
    "fst (sendAck testPorts 12000 (received s2 12000) ?p) = []"
    "(packetReportPtr testNode + 1) mod length (packetReport testNode) = 1"
    by (simp_all add: test_defs rxLog_def dupLog_def sendAck_def)
  from duplicate_dropped_while_recorded
    [OF h1 h2 disjI2 [OF h3] h4 h5 h6 run1 between few h1 h2 disjI2 [OF h3] h4 refl refl h8,
      of 0]
  have "packetReportPtr s1 = 1
        \<and> process testPorts 12000 s2 0 ?p 30
             = Inr ([], snd (sendAck testPorts 12000 (received s2 12000) ?p))"
    unfolding e by simp
  with run1 between cnt h1 h2 h3 h4 h5 h6 h7 h8 show ?thesis by blast
qed

end
